theory Spec2Isabelle
  imports Complex_Main
begin

section \<open>The notebook RNN.ipynb: constants and data\<close>

text \<open>
  The repository is one notebook of five code cells that call into a deep-learning
  framework. The notebook's own text (constants, calls, their arguments and their
  order) is embedded as written. The framework functions it calls are embedded by
  their documented behaviour at the arguments the notebook passes; what the framework
  computes in floating point (losses, accuracies, weights) is a parameter of the model.
\<close>

definition VOCAB_SIZE :: nat where
  "VOCAB_SIZE = 10000"

definition MAXLEN :: nat where
  "MAXLEN = 500"

definition BATCH_SIZE :: nat where
  "BATCH_SIZE = 64"

datatype error = NameError | ValueError | IndexError | InvalidArgumentError

text \<open>
  The dataset file as the loader reads it: integer-encoded reviews and their labels,
  for the training and the test part (rows already in the loader's fixed-seed order).
\<close>

record imdb_file =
  file_x_train :: "int list list"
  file_y_train :: "int list"
  file_x_test :: "int list list"
  file_y_test :: "int list"

text \<open>
  \<^verbatim>\<open>imdb.load_data(num_words=VOCAB_SIZE)\<close> with the loader's defaults
  \<^verbatim>\<open>skip_top=0, start_char=1, oov_char=2, index_from=3\<close>: every review gets
  the start marker, every word index is shifted by \<^verbatim>\<open>index_from\<close>, and every index
  \<^verbatim>\<open>w\<close> that fails \<^verbatim>\<open>skip_top <= w < num_words\<close> is replaced by
  \<^verbatim>\<open>oov_char\<close>. This is the loader for a \<^verbatim>\<open>num_words\<close> above 0, as the
  notebook passes; to the loader itself 0 means no limit.
\<close>

definition skip_top :: int where
  "skip_top = 0"

definition start_char :: int where
  "start_char = 1"

definition oov_char :: int where
  "oov_char = 2"

definition index_from :: int where
  "index_from = 3"

definition load_data ::
  "nat \<Rightarrow> imdb_file \<Rightarrow> (int list list \<times> int list) \<times> (int list list \<times> int list)" where
  "load_data num_words f =
     (let x_train = map (\<lambda>x. start_char # map (\<lambda>w. w + index_from) x) (file_x_train f);
          x_test = map (\<lambda>x. start_char # map (\<lambda>w. w + index_from) x) (file_x_test f);
          xs = x_train @ x_test;
          xs = map (map (\<lambda>w. if skip_top \<le> w \<and> w < int num_words then w else oov_char)) xs;
          idx = length x_train
      in ((take idx xs, file_y_train f), (drop idx xs, file_y_test f)))"

text \<open>
  \<^verbatim>\<open>sequence.pad_sequences(sequences, maxlen=MAXLEN)\<close> with the defaults
  \<^verbatim>\<open>padding='pre', truncating='pre', value=0\<close>. The result array starts as
  \<^verbatim>\<open>maxlen\<close> zeros per row; an empty sequence leaves its row as it is; otherwise
  \<^verbatim>\<open>trunc = s[-maxlen:]\<close> is written to \<^verbatim>\<open>x[idx, -len(trunc):]\<close>. Python's
  \<^verbatim>\<open>s[-0:]\<close> is the whole of \<^verbatim>\<open>s\<close>, which then does not fit a row of
  width 0: the assignment raises.
\<close>

definition pad_row :: "nat \<Rightarrow> int list \<Rightarrow> error + int list" where
  "pad_row maxlen s =
     (if s = [] then Inr (replicate maxlen 0)
      else let trunc = (if maxlen = 0 then s else drop (length s - maxlen) s)
           in if length trunc \<le> maxlen
              then Inr (replicate (maxlen - length trunc) 0 @ trunc)
              else Inl ValueError)"

fun pad_rows :: "nat \<Rightarrow> int list list \<Rightarrow> error + int list list" where
  "pad_rows maxlen [] = Inr []"
| "pad_rows maxlen (s # ss) =
     (case pad_row maxlen s of
        Inl e \<Rightarrow> Inl e
      | Inr r \<Rightarrow> (case pad_rows maxlen ss of Inl e \<Rightarrow> Inl e | Inr rs \<Rightarrow> Inr (r # rs)))"

text \<open>A two-dimensional integer array: its rows and its second dimension.\<close>

record ndarray =
  rows :: "int list list"
  ncols :: nat

definition pad_sequences :: "int list list \<Rightarrow> nat \<Rightarrow> error + ndarray" where
  "pad_sequences sequences maxlen =
     (case pad_rows maxlen sequences of
        Inl e \<Rightarrow> Inl e
      | Inr x \<Rightarrow> Inr \<lparr>rows = x, ncols = maxlen\<rparr>)"

definition shape :: "ndarray \<Rightarrow> nat list" where
  "shape a = [length (rows a), ncols a]"

text \<open>An array has shape \<open>(n, m)\<close>: \<open>n\<close> rows, each of them of \<open>m\<close> entries.\<close>

definition has_shape :: "ndarray \<Rightarrow> nat \<Rightarrow> nat \<Rightarrow> bool" where
  "has_shape a n m = (shape a = [n, m] \<and> list_all (\<lambda>r. length r = m) (rows a))"

section \<open>Layers, architectures and compiled models\<close>

datatype activation = Linear | Sigmoid

text \<open>
  The layer classes the notebook instantiates, with the constructor arguments it
  gives: \<^verbatim>\<open>Input(shape)\<close>, \<^verbatim>\<open>Embedding(input_dim, output_dim)\<close>, the three
  recurrent classes \<^verbatim>\<open>(units, return_sequences)\<close>, \<^verbatim>\<open>Attention()\<close>,
  \<^verbatim>\<open>Flatten()\<close> and \<^verbatim>\<open>Dense(units, activation)\<close>.
\<close>

datatype layer =
    InputLayer "nat list"
  | Embedding nat nat
  | SimpleRNN nat bool
  | LSTM nat bool
  | GRU nat bool
  | Attention
  | Flatten
  | Dense nat activation

text \<open>
  A layer call in the functional interface: the layer, the tensors it is applied to
  (by their position in the graph), and the layer's \<^verbatim>\<open>trainable\<close> attribute, which
  is true unless the caller says otherwise.
\<close>

record node =
  node_layer :: layer
  inbound :: "nat list"
  trainable :: bool

datatype architecture =
    Sequential "layer list"
  | Functional "node list" nat nat

definition apply_layer :: "layer \<Rightarrow> nat list \<Rightarrow> node list \<Rightarrow> nat \<times> node list" where
  "apply_layer l ins g = (length g, g @ [\<lparr>node_layer = l, inbound = ins, trainable = True\<rparr>])"

text \<open>
  A sequential stack is the chain of its layers behind an input of the shape of the
  data it is first called on.
\<close>

fun chain :: "layer list \<Rightarrow> node list \<Rightarrow> node list" where
  "chain [] g = g"
| "chain (l # ls) g = chain ls (snd (apply_layer l [length g - 1] g))"

definition graph_of :: "architecture \<Rightarrow> nat list \<Rightarrow> node list" where
  "graph_of a input_shape =
     (case a of
        Sequential ls \<Rightarrow> chain ls (snd (apply_layer (InputLayer input_shape) [] []))
      | Functional g i out \<Rightarrow> g)"


text \<open>
  Output shape of a layer for given input shapes (without the batch axis), and its
  number of weights. A recurrent layer reads \<^verbatim>\<open>(time, features)\<close> and returns the
  whole sequence or the last state; dot-product attention of a query on a value of
  the same depth has the query's shape.
\<close>

fun recurrent_shape :: "nat \<Rightarrow> bool \<Rightarrow> nat list list \<Rightarrow> nat list option" where
  "recurrent_shape units return_sequences [[t, f]] =
     Some (if return_sequences then [t, units] else [units])"
| "recurrent_shape units return_sequences ins = None"

fun output_shape :: "layer \<Rightarrow> nat list list \<Rightarrow> nat list option" where
  "output_shape (InputLayer s) ins = (if ins = [] then Some s else None)"
| "output_shape (Embedding input_dim output_dim) ins =
     (case ins of [s] \<Rightarrow> Some (s @ [output_dim]) | _ \<Rightarrow> None)"
| "output_shape (SimpleRNN units rs) ins = recurrent_shape units rs ins"
| "output_shape (LSTM units rs) ins = recurrent_shape units rs ins"
| "output_shape (GRU units rs) ins = recurrent_shape units rs ins"
| "output_shape Attention ins =
     (case ins of
        [[tq, dq], [tv, dv]] \<Rightarrow> if dq = dv then Some [tq, dv] else None
      | _ \<Rightarrow> None)"
| "output_shape Flatten ins = (case ins of [s] \<Rightarrow> Some [prod_list s] | _ \<Rightarrow> None)"
| "output_shape (Dense units a) ins =
     (case ins of [s] \<Rightarrow> if s = [] then None else Some (butlast s @ [units]) | _ \<Rightarrow> None)"

definition features :: "nat list list \<Rightarrow> nat" where
  "features ins = (case ins of [] \<Rightarrow> 0 | s # _ \<Rightarrow> if s = [] then 0 else last s)"

fun count_params :: "layer \<Rightarrow> nat list list \<Rightarrow> nat" where
  "count_params (InputLayer s) ins = 0"
| "count_params (Embedding input_dim output_dim) ins = input_dim * output_dim"
| "count_params (SimpleRNN units rs) ins = (features ins + units) * units + units"
| "count_params (LSTM units rs) ins = 4 * ((features ins + units) * units + units)"
| "count_params (GRU units rs) ins = 3 * ((features ins + units) * units + 2 * units)"
| "count_params Attention ins = 0"
| "count_params Flatten ins = 0"
| "count_params (Dense units a) ins = features ins * units + units"

text \<open>
  One row of \<^verbatim>\<open>summary()\<close> per layer call: the layer, its output shape, its
  number of weights and whether they are trainable. The rows are computed front to
  back; a call on a tensor that does not exist yet, or on shapes the layer does not
  accept, has no row.
\<close>

record summary_row =
  row_layer :: layer
  row_shape :: "nat list"
  row_params :: nat
  row_trainable :: bool

fun summary_rows :: "node list \<Rightarrow> summary_row list \<Rightarrow> summary_row list option" where
  "summary_rows [] acc = Some acc"
| "summary_rows (n # ns) acc =
     (if list_all (\<lambda>i. i < length acc) (inbound n)
      then let ins = map (\<lambda>i. row_shape (acc ! i)) (inbound n)
           in (case output_shape (node_layer n) ins of
                 None \<Rightarrow> None
               | Some s \<Rightarrow>
                   summary_rows ns
                     (acc @ [\<lparr>row_layer = node_layer n, row_shape = s,
                              row_params = count_params (node_layer n) ins,
                              row_trainable = trainable n\<rparr>]))
      else None)"

definition summary :: "architecture \<Rightarrow> nat list \<Rightarrow> summary_row list option" where
  "summary a input_shape = summary_rows (graph_of a input_shape) []"

definition total_params :: "summary_row list \<Rightarrow> nat" where
  "total_params tbl = sum_list (map row_params tbl)"

definition trainable_params :: "summary_row list \<Rightarrow> nat" where
  "trainable_params tbl = sum_list (map row_params (filter row_trainable tbl))"

definition non_trainable_params :: "summary_row list \<Rightarrow> nat" where
  "non_trainable_params tbl =
     sum_list (map row_params (filter (\<lambda>r. \<not> row_trainable r) tbl))"



record compile_config =
  optimizer :: string
  loss :: string
  metrics :: "string list"

text \<open>
  A model: its architecture, what \<^verbatim>\<open>compile\<close> set, and how many epochs its
  weights have been trained for (the weights themselves are not modelled).
\<close>

record model =
  arch :: architecture
  compiled :: "compile_config option"
  epochs_trained :: nat

definition Model :: "architecture \<Rightarrow> model" where
  "Model a = \<lparr>arch = a, compiled = None, epochs_trained = 0\<rparr>"

definition compile :: "model \<Rightarrow> string \<Rightarrow> string \<Rightarrow> string list \<Rightarrow> model" where
  "compile m opt l ms = m\<lparr>compiled := Some \<lparr>optimizer = opt, loss = l, metrics = ms\<rparr>\<rparr>"

text \<open>
  \<^verbatim>\<open>build_model(rnn_cell)\<close> of cell 1. The argument is a recurrent layer class;
  \<^verbatim>\<open>rnn_cell(32)\<close> leaves \<^verbatim>\<open>return_sequences\<close> at its default, false.
\<close>

definition build_model :: "(nat \<Rightarrow> bool \<Rightarrow> layer) \<Rightarrow> model" where
  "build_model rnn_cell =
     (let model = Model (Sequential
            [Embedding VOCAB_SIZE 32,
             rnn_cell 32 False,
             Dense 1 Sigmoid])
      in compile model ''adam'' ''binary_crossentropy'' [''accuracy''])"

text \<open>\<^verbatim>\<open>build_model2(rnn_cell, rnn_units=32)\<close> of cell 4.\<close>

definition build_model2 :: "(nat \<Rightarrow> bool \<Rightarrow> layer) \<Rightarrow> nat \<Rightarrow> model" where
  "build_model2 rnn_cell rnn_units =
     (let (sequence_input, g) = apply_layer (InputLayer [MAXLEN]) [] [];
          (embedded_sequences, g) =
             apply_layer (Embedding VOCAB_SIZE rnn_units) [sequence_input] g;
          (rnn_output, g) = apply_layer (rnn_cell rnn_units True) [embedded_sequences] g;
          (query_value_attention_seq, g) = apply_layer Attention [rnn_output, rnn_output] g;
          (attention_flatten, g) = apply_layer Flatten [query_value_attention_seq] g;
          (dense_output, g) = apply_layer (Dense 1 Sigmoid) [attention_flatten] g;
          model = Model (Functional g sequence_input dense_output)
      in compile model ''adam'' ''binary_crossentropy'' [''accuracy''])"

section \<open>Training and evaluation\<close>

text \<open>
  What the framework computes in floating point is not modelled: the value of each
  logged quantity after each epoch of a \<^verbatim>\<open>fit\<close>, and of each score of an
  \<^verbatim>\<open>evaluate\<close>, is taken from a parameter. Floating-point numbers are read as
  reals.
\<close>

record numerics =
  train_logs :: "model \<Rightarrow> ndarray \<Rightarrow> int list \<Rightarrow> nat \<Rightarrow> real \<Rightarrow> nat \<Rightarrow> string \<Rightarrow> real"
  test_scores :: "model \<Rightarrow> ndarray \<Rightarrow> int list \<Rightarrow> string \<Rightarrow> real"

type_synonym logs = "(string \<times> real) list"

text \<open>
  \<^verbatim>\<open>EarlyStopping(monitor='val_loss', patience=2)\<close>: the constructor arguments and
  the state the callback keeps. \<open>best = None\<close> stands for the infinite loss the
  callback starts from. \<^verbatim>\<open>on_train_begin\<close> resets \<^verbatim>\<open>wait\<close> and
  \<^verbatim>\<open>stopped_epoch\<close> and leaves \<^verbatim>\<open>best\<close> as it is. This is the framework
  release that produced the notebook's output cells: their epochs are those of a
  callback whose \<^verbatim>\<open>best\<close> survives from one \<^verbatim>\<open>fit\<close> to the next. The
  notebook pins no release; under a release whose \<^verbatim>\<open>on_train_begin\<close> resets
  \<^verbatim>\<open>best\<close> as well, every \<^verbatim>\<open>fit\<close> begins as with a callback just
  constructed. The monitored quantity is a loss, so an improvement is a smaller value.
\<close>

record early_stopping =
  monitor :: string
  patience :: nat
  min_delta :: real
  best :: "real option"
  wait :: nat
  stopped_epoch :: nat

definition EarlyStopping :: "string \<Rightarrow> nat \<Rightarrow> early_stopping" where
  "EarlyStopping mon pat =
     \<lparr>monitor = mon, patience = pat, min_delta = 0, best = None, wait = 0, stopped_epoch = 0\<rparr>"

definition on_train_begin :: "early_stopping \<Rightarrow> early_stopping" where
  "on_train_begin cb = cb\<lparr>wait := 0, stopped_epoch := 0\<rparr>"

definition is_improvement :: "early_stopping \<Rightarrow> real \<Rightarrow> bool" where
  "is_improvement cb current =
     (case best cb of None \<Rightarrow> True | Some b \<Rightarrow> current + min_delta cb < b)"

text \<open>The callback after an epoch, and whether it sets \<^verbatim>\<open>model.stop_training\<close>.\<close>

definition on_epoch_end :: "early_stopping \<Rightarrow> nat \<Rightarrow> logs \<Rightarrow> early_stopping \<times> bool" where
  "on_epoch_end cb epoch lg =
     (case map_of lg (monitor cb) of
        None \<Rightarrow> (cb, False)
      | Some current \<Rightarrow>
          let cb = cb\<lparr>wait := wait cb + 1\<rparr>
          in if is_improvement cb current
             then (cb\<lparr>best := Some current, wait := 0\<rparr>, False)
             else if patience cb \<le> wait cb \<and> 0 < epoch
                  then (cb\<lparr>stopped_epoch := epoch\<rparr>, True)
                  else (cb, False))"

definition epoch_end_all ::
  "early_stopping list \<Rightarrow> nat \<Rightarrow> logs \<Rightarrow> early_stopping list \<times> bool" where
  "epoch_end_all cbs epoch lg =
     (let rs = map (\<lambda>cb. on_epoch_end cb epoch lg) cbs
      in (map fst rs, list_ex snd rs))"

text \<open>
  The epoch loop of \<^verbatim>\<open>fit\<close>, \<^verbatim>\<open>for epoch in range(0, epochs)\<close>: the epoch is
  run, its logs go to the history and to the callbacks, and the loop is left when a
  callback has set \<^verbatim>\<open>stop_training\<close>. The argument \<open>left\<close> counts the epochs left.
\<close>

fun fit_loop ::
  "(nat \<Rightarrow> logs) \<Rightarrow> nat \<Rightarrow> nat \<Rightarrow> early_stopping list \<Rightarrow> logs list
     \<Rightarrow> logs list \<times> early_stopping list" where
  "fit_loop epoch_logs 0 epoch cbs h = (h, cbs)"
| "fit_loop epoch_logs (Suc left) epoch cbs h =
     (let lg = epoch_logs epoch;
          (cbs, stop_training) = epoch_end_all cbs epoch lg;
          h = h @ [lg]
      in if stop_training then (h, cbs)
         else fit_loop epoch_logs left (Suc epoch) cbs h)"

text \<open>
  The quantities logged per epoch: the loss and the compiled metrics, and the same on
  the validation split when there is one.
\<close>

definition log_keys :: "compile_config \<Rightarrow> real \<Rightarrow> string list" where
  "log_keys cfg validation_split =
     (let ks = ''loss'' # metrics cfg
      in if 0 < validation_split then ks @ map (\<lambda>k. ''val_'' @ k) ks else ks)"

text \<open>
  An embedding layer looks each token up in a table of \<^verbatim>\<open>input_dim\<close> rows; a token
  outside the table is an error.
\<close>

definition embedding_lookup :: "nat \<Rightarrow> int \<Rightarrow> error + nat" where
  "embedding_lookup input_dim w =
     (if 0 \<le> w \<and> w < int input_dim then Inr (nat w) else Inl InvalidArgumentError)"

definition layers_of :: "architecture \<Rightarrow> layer list" where
  "layers_of a =
     (case a of Sequential ls \<Rightarrow> ls | Functional g i out \<Rightarrow> map node_layer g)"

fun embedding_dims :: "layer list \<Rightarrow> nat list" where
  "embedding_dims [] = []"
| "embedding_dims (Embedding input_dim output_dim # ls) = input_dim # embedding_dims ls"
| "embedding_dims (l # ls) = embedding_dims ls"

definition input_ok :: "architecture \<Rightarrow> ndarray \<Rightarrow> bool" where
  "input_ok a x =
     (case a of
        Sequential ls \<Rightarrow> True
      | Functional g i out \<Rightarrow>
          (case map node_layer (drop i g) of
             InputLayer s # _ \<Rightarrow> s = [ncols x] \<and> list_all (\<lambda>r. length r = ncols x) (rows x)
           | _ \<Rightarrow> False))"

definition lookups_ok :: "nat \<Rightarrow> ndarray \<Rightarrow> bool" where
  "lookups_ok input_dim x =
     list_all (list_all (\<lambda>w. case embedding_lookup input_dim w of
                                Inl e \<Rightarrow> False | Inr i \<Rightarrow> True)) (rows x)"

text \<open>
  Running a model on an input array: the array must fit a declared input, and every
  token goes through every embedding table of the model.
\<close>

definition call_model :: "model \<Rightarrow> ndarray \<Rightarrow> error + unit" where
  "call_model m x =
     (if \<not> input_ok (arch m) x then Inl ValueError
      else if \<not> list_all (\<lambda>d. lookups_ok d x) (embedding_dims (layers_of (arch m)))
           then Inl InvalidArgumentError
           else Inr ())"

text \<open>
  The epochs of one \<^verbatim>\<open>fit\<close>: the callbacks are told that training begins, and
  the loop runs from epoch 0 with an empty history.
\<close>

definition run_epochs ::
  "numerics \<Rightarrow> compile_config \<Rightarrow> model \<Rightarrow> ndarray \<Rightarrow> int list \<Rightarrow> nat \<Rightarrow> nat \<Rightarrow> real
     \<Rightarrow> early_stopping list \<Rightarrow> logs list \<times> early_stopping list" where
  "run_epochs num cfg m x y epochs batch_size validation_split callbacks =
     (let cbs = map on_train_begin callbacks;
          epoch_logs = (\<lambda>epoch.
            map (\<lambda>k. (k, train_logs num m x y batch_size validation_split epoch k))
              (log_keys cfg validation_split))
      in fit_loop epoch_logs epochs 0 cbs [])"

definition fit ::
  "numerics \<Rightarrow> model \<Rightarrow> ndarray \<Rightarrow> int list \<Rightarrow> nat \<Rightarrow> nat \<Rightarrow> real \<Rightarrow> early_stopping list
     \<Rightarrow> error + (logs list \<times> model \<times> early_stopping list)" where
  "fit num m x y epochs batch_size validation_split callbacks =
     (case compiled m of
        None \<Rightarrow> Inl ValueError
      | Some cfg \<Rightarrow>
          (case call_model m x of
             Inl e \<Rightarrow> Inl e
           | Inr u \<Rightarrow>
               let (h, cbs) = run_epochs num cfg m x y epochs batch_size validation_split
                                callbacks
               in Inr (h, m\<lparr>epochs_trained := epochs_trained m + length h\<rparr>, cbs)))"

text \<open>\<^verbatim>\<open>evaluate\<close> returns the loss followed by the compiled metrics, in that order.\<close>

definition evaluate :: "numerics \<Rightarrow> model \<Rightarrow> ndarray \<Rightarrow> int list \<Rightarrow> error + real list" where
  "evaluate num m x y =
     (case compiled m of
        None \<Rightarrow> Inl ValueError
      | Some cfg \<Rightarrow>
          (case call_model m x of
             Inl e \<Rightarrow> Inl e
           | Inr u \<Rightarrow> Inr (map (test_scores num m x y) (''loss'' # metrics cfg))))"

section \<open>The cells of the notebook\<close>

text \<open>
  The calls the notebook makes into the framework and its \<^verbatim>\<open>print\<close> calls are
  recorded, in the order they are made, with the values of their arguments. A call
  on a model carries the name of the notebook variable it is made on.
\<close>

datatype printed = PStr string | PInt int | PFloat real | PTuple "nat list"

datatype event =
    Load_data nat
  | Pad_sequences "int list list" nat
  | Build_model string model
  | Summary string "summary_row list option"
  | Fit string model ndarray "int list" nat nat real "early_stopping list"
  | Evaluate string model ndarray "int list"
  | Print "printed list"

text \<open>
  The kernel's namespace: every variable the notebook assigns, unset until the cell
  that assigns it has run. \<open>trace\<close> is the record of calls so far. The variables
  \<^verbatim>\<open>history_\<close> and \<^verbatim>\<open>results_\<close> of cell 5 are \<open>history_attention\<close> and
  \<open>results_attention\<close> here.
\<close>

record globals =
  input_train :: "ndarray option"
  y_train :: "int list option"
  input_test :: "ndarray option"
  y_test :: "int list option"
  rnn_model :: "model option"
  lstm_model :: "model option"
  gru_model :: "model option"
  callback :: "early_stopping option"
  history :: "logs list option"
  results :: "real list option"
  history_LSTM :: "logs list option"
  results_LSTM :: "real list option"
  history_GRU :: "logs list option"
  results_GRU :: "real list option"
  lstm_model_with_attention :: "model option"
  history_attention :: "logs list option"
  results_attention :: "real list option"
  trace :: "event list"

definition fresh_kernel :: globals where
  "fresh_kernel =
     \<lparr>input_train = None, y_train = None, input_test = None, y_test = None,
      rnn_model = None, lstm_model = None, gru_model = None, callback = None,
      history = None, results = None, history_LSTM = None, results_LSTM = None,
      history_GRU = None, results_GRU = None, lstm_model_with_attention = None,
      history_attention = None, results_attention = None, trace = []\<rparr>"

definition and_then :: "error + 'a \<Rightarrow> ('a \<Rightarrow> error + 'b) \<Rightarrow> error + 'b" where
  "and_then r k = (case r of Inl e \<Rightarrow> Inl e | Inr a \<Rightarrow> k a)"

text \<open>Reading a variable of the namespace, and indexing a Python list from the front.\<close>

definition name :: "'a option \<Rightarrow> error + 'a" where
  "name v = (case v of None \<Rightarrow> Inl NameError | Some a \<Rightarrow> Inr a)"

definition index :: "'a list \<Rightarrow> nat \<Rightarrow> error + 'a" where
  "index xs i = (if i < length xs then Inr (xs ! i) else Inl IndexError)"

text \<open>The line \<^verbatim>\<open>f'Test Loss: {results[0]} - Test Accuracy: {results[1]}'\<close>.\<close>

definition test_line :: "real list \<Rightarrow> error + printed list" where
  "test_line res =
     and_then (index res 0) (\<lambda>r0.
     and_then (index res 1) (\<lambda>r1.
       Inr [PStr ''Test Loss: '', PFloat r0, PStr '' - Test Accuracy: '', PFloat r1]))"

text \<open>Cell 1: load, pad, build three models, train and evaluate the SimpleRNN one.\<close>

definition cell1 :: "numerics \<Rightarrow> imdb_file \<Rightarrow> globals \<Rightarrow> error + globals" where
  "cell1 num f g =
     (let t = trace g @ [Print [PStr ''Loading data...'']];
          ((input_train0, y_train0), (input_test0, y_test0)) = load_data VOCAB_SIZE f;
          t = t @ [Load_data VOCAB_SIZE,
                   Print [PInt (int (length input_train0)), PStr ''train sequences''],
                   Print [PInt (int (length input_test0)), PStr ''test sequences''],
                   Print [PStr ''Pad sequences (samples x time)'']]
      in and_then (pad_sequences input_train0 MAXLEN) (\<lambda>input_train1.
         and_then (pad_sequences input_test0 MAXLEN) (\<lambda>input_test1.
         let t = t @ [Pad_sequences input_train0 MAXLEN,
                      Pad_sequences input_test0 MAXLEN,
                      Print [PStr ''input_train shape:'', PTuple (shape input_train1)],
                      Print [PStr ''input_test shape:'', PTuple (shape input_test1)]];
             rnn_model0 = build_model SimpleRNN;
             lstm_model0 = build_model LSTM;
             gru_model0 = build_model GRU;
             t = t @ [Build_model ''rnn_model'' rnn_model0,
                      Build_model ''lstm_model'' lstm_model0,
                      Build_model ''gru_model'' gru_model0];
             callback0 = EarlyStopping ''val_loss'' 2
         in and_then (fit num rnn_model0 input_train1 y_train0 10 BATCH_SIZE 0.2 [callback0])
              (\<lambda>(history0, rnn_model1, callbacks).
            and_then (evaluate num rnn_model1 input_test1 y_test0) (\<lambda>results0.
            and_then (test_line results0) (\<lambda>line.
              Inr (g\<lparr>input_train := Some input_train1, y_train := Some y_train0,
                      input_test := Some input_test1, y_test := Some y_test0,
                      rnn_model := Some rnn_model1, lstm_model := Some lstm_model0,
                      gru_model := Some gru_model0, callback := Some (hd callbacks),
                      history := Some history0, results := Some results0,
                      trace := t @
                        [Fit ''rnn_model'' rnn_model0 input_train1 y_train0 10 BATCH_SIZE 0.2
                           [callback0],
                         Evaluate ''rnn_model'' rnn_model1 input_test1 y_test0,
                         Print line]\<rparr>)))))))"

text \<open>Cell 2: train and evaluate the LSTM model.\<close>

definition cell2 :: "numerics \<Rightarrow> globals \<Rightarrow> error + globals" where
  "cell2 num g =
     and_then (name (lstm_model g)) (\<lambda>m.
     and_then (name (input_train g)) (\<lambda>x.
     and_then (name (y_train g)) (\<lambda>y.
     and_then (name (callback g)) (\<lambda>cb.
     and_then (fit num m x y 10 BATCH_SIZE 0.2 [cb]) (\<lambda>(h, m1, callbacks).
     and_then (name (input_test g)) (\<lambda>xt.
     and_then (name (y_test g)) (\<lambda>yt.
     and_then (evaluate num m1 xt yt) (\<lambda>res.
     and_then (test_line res) (\<lambda>line.
       Inr (g\<lparr>lstm_model := Some m1, callback := Some (hd callbacks),
               history_LSTM := Some h, results_LSTM := Some res,
               trace := trace g @
                 [Fit ''lstm_model'' m x y 10 BATCH_SIZE 0.2 [cb],
                  Evaluate ''lstm_model'' m1 xt yt,
                  Print line]\<rparr>))))))))))"

text \<open>Cell 3: train and evaluate the GRU model.\<close>

definition cell3 :: "numerics \<Rightarrow> globals \<Rightarrow> error + globals" where
  "cell3 num g =
     and_then (name (gru_model g)) (\<lambda>m.
     and_then (name (input_train g)) (\<lambda>x.
     and_then (name (y_train g)) (\<lambda>y.
     and_then (name (callback g)) (\<lambda>cb.
     and_then (fit num m x y 10 BATCH_SIZE 0.2 [cb]) (\<lambda>(h, m1, callbacks).
     and_then (name (input_test g)) (\<lambda>xt.
     and_then (name (y_test g)) (\<lambda>yt.
     and_then (evaluate num m1 xt yt) (\<lambda>res.
     and_then (test_line res) (\<lambda>line.
       Inr (g\<lparr>gru_model := Some m1, callback := Some (hd callbacks),
               history_GRU := Some h, results_GRU := Some res,
               trace := trace g @
                 [Fit ''gru_model'' m x y 10 BATCH_SIZE 0.2 [cb],
                  Evaluate ''gru_model'' m1 xt yt,
                  Print line]\<rparr>))))))))))"

text \<open>
  Cell 4: build the LSTM model with attention and print its summary. The cell assigns
  \<^verbatim>\<open>VOCAB_SIZE\<close> and \<^verbatim>\<open>MAXLEN\<close> again, to the values they have.
\<close>

definition cell4 :: "globals \<Rightarrow> error + globals" where
  "cell4 g =
     (let m = build_model2 LSTM 32
      in Inr (g\<lparr>lstm_model_with_attention := Some m,
                 trace := trace g @
                   [Build_model ''lstm_model_with_attention'' m,
                    Summary ''lstm_model_with_attention'' (summary (arch m) [MAXLEN])]\<rparr>))"

text \<open>Cell 5: train and evaluate the LSTM model with attention.\<close>

definition cell5 :: "numerics \<Rightarrow> globals \<Rightarrow> error + globals" where
  "cell5 num g =
     and_then (name (lstm_model_with_attention g)) (\<lambda>m.
     and_then (name (input_train g)) (\<lambda>x.
     and_then (name (y_train g)) (\<lambda>y.
     and_then (name (callback g)) (\<lambda>cb.
     and_then (fit num m x y 10 BATCH_SIZE 0.2 [cb]) (\<lambda>(h, m1, callbacks).
     and_then (name (input_test g)) (\<lambda>xt.
     and_then (name (y_test g)) (\<lambda>yt.
     and_then (evaluate num m1 xt yt) (\<lambda>res.
     and_then (test_line res) (\<lambda>line.
       Inr (g\<lparr>lstm_model_with_attention := Some m1, callback := Some (hd callbacks),
               history_attention := Some h, results_attention := Some res,
               trace := trace g @
                 [Fit ''lstm_model_with_attention'' m x y 10 BATCH_SIZE 0.2 [cb],
                  Evaluate ''lstm_model_with_attention'' m1 xt yt,
                  Print line]\<rparr>))))))))))"

text \<open>The notebook: its cells in the order of their execution counts, on a fresh kernel.\<close>

definition notebook :: "numerics \<Rightarrow> imdb_file \<Rightarrow> error + globals" where
  "notebook num f =
     and_then (cell1 num f fresh_kernel) (\<lambda>g.
     and_then (cell2 num g) (\<lambda>g.
     and_then (cell3 num g) (\<lambda>g.
     and_then (cell4 g) (\<lambda>g.
     cell5 num g))))"

section \<open>Observations on a run\<close>

text \<open>The reviews as the loader returns them, before padding.\<close>

definition loaded_train :: "imdb_file \<Rightarrow> int list list" where
  "loaded_train f = fst (fst (load_data VOCAB_SIZE f))"

definition loaded_test :: "imdb_file \<Rightarrow> int list list" where
  "loaded_test f = fst (snd (load_data VOCAB_SIZE f))"

text \<open>The configuration both build functions compile their model with.\<close>

definition adam_cfg :: compile_config where
  "adam_cfg = \<lparr>optimizer = ''adam'', loss = ''binary_crossentropy'', metrics = [''accuracy'']\<rparr>"

text \<open>The test loss and the test accuracy of a model, and the line that reports them.\<close>

definition scores :: "numerics \<Rightarrow> model \<Rightarrow> ndarray \<Rightarrow> int list \<Rightarrow> real list" where
  "scores num m x y = [test_scores num m x y ''loss'', test_scores num m x y ''accuracy'']"

definition report :: "numerics \<Rightarrow> model \<Rightarrow> ndarray \<Rightarrow> int list \<Rightarrow> printed list" where
  "report num m x y =
     [PStr ''Test Loss: '', PFloat (test_scores num m x y ''loss''),
      PStr '' - Test Accuracy: '', PFloat (test_scores num m x y ''accuracy'')]"

text \<open>The models built, the \<^verbatim>\<open>fit\<close> calls and the \<^verbatim>\<open>evaluate\<close> calls of a trace.\<close>

fun built :: "event list \<Rightarrow> (string \<times> model) list" where
  "built [] = []"
| "built (Build_model v m # t) = (v, m) # built t"
| "built (e # t) = built t"

type_synonym fit_call =
  "string \<times> model \<times> ndarray \<times> int list \<times> nat \<times> nat \<times> real \<times> early_stopping list"

fun fit_calls :: "event list \<Rightarrow> fit_call list" where
  "fit_calls [] = []"
| "fit_calls (Fit v m x y epochs batch_size validation_split callbacks # t) =
     (v, m, x, y, epochs, batch_size, validation_split, callbacks) # fit_calls t"
| "fit_calls (e # t) = fit_calls t"

fun evaluate_calls :: "event list \<Rightarrow> (string \<times> model \<times> ndarray \<times> int list) list" where
  "evaluate_calls [] = []"
| "evaluate_calls (Evaluate v m x y # t) = (v, m, x, y) # evaluate_calls t"
| "evaluate_calls (e # t) = evaluate_calls t"


text \<open>
  A row \<open>r\<close> is the review \<open>s\<close> brought to length \<open>n\<close>: the last \<open>n\<close> tokens of a
  longer review, a shorter one behind as many zeros as it lacks.
\<close>

definition padded_to :: "nat \<Rightarrow> int list \<Rightarrow> int list \<Rightarrow> bool" where
  "padded_to n s r =
     (length r = n \<and>
      (if n < length s then r = drop (length s - n) s
       else r = replicate (n - length s) 0 @ s))"

text \<open>The steps of a run, by kind and by the model variable they are about.\<close>

datatype step =
    Load | Pad | Construct string | Summarise string | Train string | Test string | Output

fun step_of :: "event \<Rightarrow> step" where
  "step_of (Load_data n) = Load"
| "step_of (Pad_sequences ss n) = Pad"
| "step_of (Build_model v m) = Construct v"
| "step_of (Summary v tbl) = Summarise v"
| "step_of (Fit v m x y epochs batch_size validation_split callbacks) = Train v"
| "step_of (Evaluate v m x y) = Test v"
| "step_of (Print ps) = Output"

definition positions :: "'a \<Rightarrow> 'a list \<Rightarrow> nat list" where
  "positions a xs = filter (\<lambda>i. xs ! i = a) [0..<length xs]"

text \<open>Both steps occur, and every \<open>a\<close> comes before every \<open>b\<close>.\<close>

definition all_before :: "'a \<Rightarrow> 'a \<Rightarrow> 'a list \<Rightarrow> bool" where
  "all_before a b xs =
     (positions a xs \<noteq> [] \<and> positions b xs \<noteq> [] \<and>
      list_all (\<lambda>i. list_all (\<lambda>j. i < j) (positions b xs)) (positions a xs))"

text \<open>The step \<open>a\<close> occurs once, and \<open>b\<close> is the step right after it.\<close>

definition followed_by :: "'a \<Rightarrow> 'a \<Rightarrow> 'a list \<Rightarrow> bool" where
  "followed_by a b xs =
     (case positions a xs of
        [i] \<Rightarrow> Suc i < length xs \<and> xs ! Suc i = b
      | _ \<Rightarrow> False)"

text \<open>
  Every \<^verbatim>\<open>evaluate\<close> is on the model that the \<^verbatim>\<open>fit\<close> of the same variable
  returned.
\<close>

fun trained_then_tested ::
  "numerics \<Rightarrow> fit_call list \<Rightarrow> (string \<times> model \<times> ndarray \<times> int list) list \<Rightarrow> bool" where
  "trained_then_tested num [] [] = True"
| "trained_then_tested num ((v, m, x, y, e, b, vs, cbs) # fs) ((w, m1, xt, yt) # es) =
     (v = w \<and>
      (case fit num m x y e b vs cbs of
         Inl err \<Rightarrow> False
       | Inr (h, m2, cbs2) \<Rightarrow> m1 = m2) \<and>
      trained_then_tested num fs es)"
| "trained_then_tested num fs es = False"

text \<open>
  Each \<^verbatim>\<open>fit\<close> hands its callbacks, as it leaves them, to the next \<^verbatim>\<open>fit\<close>.
\<close>

fun threaded :: "numerics \<Rightarrow> fit_call list \<Rightarrow> bool" where
  "threaded num ((v, m, x, y, e, b, vs, cbs) # (w, m1, x1, y1, e1, b1, vs1, cbs1) # cs) =
     ((case fit num m x y e b vs cbs of
         Inl err \<Rightarrow> False
       | Inr (h, m2, cbs2) \<Rightarrow> cbs1 = cbs2) \<and>
      threaded num ((w, m1, x1, y1, e1, b1, vs1, cbs1) # cs))"
| "threaded num cs = True"

text \<open>
  Every \<^verbatim>\<open>evaluate\<close> of a trace returns the pair of test loss and test accuracy,
  and the next event prints the line that reports the two.
\<close>

fun reported :: "numerics \<Rightarrow> event list \<Rightarrow> bool" where
  "reported num [] = True"
| "reported num [Evaluate v m x y] = False"
| "reported num (Evaluate v m x y # e # t) =
     (evaluate num m x y = Inr (scores num m x y) \<and>
      e = Print (report num m x y) \<and>
      reported num t)"
| "reported num (e # t) = reported num t"

text \<open>
  The validation loss of each epoch of a \<^verbatim>\<open>fit\<close>. \<open>lowest b0 vl e\<close> is the lowest
  loss the callback has seen when epoch \<open>e\<close> ends, \<open>b0\<close> being what it held when the
  \<^verbatim>\<open>fit\<close> began; epoch \<open>e\<close> is stale when its loss is not below that.
\<close>

definition val_loss ::
  "numerics \<Rightarrow> model \<Rightarrow> ndarray \<Rightarrow> int list \<Rightarrow> nat \<Rightarrow> real \<Rightarrow> nat \<Rightarrow> real" where
  "val_loss num m x y batch_size validation_split epoch =
     train_logs num m x y batch_size validation_split epoch ''val_loss''"

fun lowest :: "real option \<Rightarrow> (nat \<Rightarrow> real) \<Rightarrow> nat \<Rightarrow> real option" where
  "lowest b0 vl 0 = b0"
| "lowest b0 vl (Suc e) =
     (case lowest b0 vl e of None \<Rightarrow> Some (vl e) | Some b \<Rightarrow> Some (min b (vl e)))"

definition stale :: "real option \<Rightarrow> (nat \<Rightarrow> real) \<Rightarrow> nat \<Rightarrow> bool" where
  "stale b0 vl e = (case lowest b0 vl e of None \<Rightarrow> False | Some b \<Rightarrow> \<not> vl e < b)"

text \<open>
  A run of \<open>n\<close> of at most \<open>epochs\<close> epochs under a patience of two: it ends early
  only after two stale epochs in a row, and no two epochs in a row were stale before.
\<close>

definition patient_stop :: "real option \<Rightarrow> (nat \<Rightarrow> real) \<Rightarrow> nat \<Rightarrow> nat \<Rightarrow> bool" where
  "patient_stop b0 vl epochs n =
     (1 \<le> n \<and> n \<le> epochs \<and>
      (n < epochs \<longrightarrow> 2 \<le> n \<and> stale b0 vl (n - 2) \<and> stale b0 vl (n - 1)) \<and>
      list_all (\<lambda>e. \<not> (stale b0 vl (e - 1) \<and> stale b0 vl e)) [1..<n - 1])"

text \<open>
  The same read on the losses of this \<^verbatim>\<open>fit\<close> alone: once two epochs in a row
  have not improved on the lowest loss of the epochs before them, the run is over.
\<close>

definition stops_when_stale :: "(nat \<Rightarrow> real) \<Rightarrow> nat \<Rightarrow> nat \<Rightarrow> bool" where
  "stops_when_stale vl epochs n =
     list_all (\<lambda>e. stale None vl (e - 1) \<and> stale None vl e \<longrightarrow> n \<le> Suc e) [1..<epochs]"

definition early_stopped :: "numerics \<Rightarrow> fit_call \<Rightarrow> bool" where
  "early_stopped num c =
     (case c of (v, m, x, y, epochs, batch_size, validation_split, cbs) \<Rightarrow>
        epochs = 10 \<and> validation_split = 0.2 \<and>
        (case (fit num m x y epochs batch_size validation_split cbs, cbs) of
           (Inr (h, m1, cbs1), [cb]) \<Rightarrow>
             patient_stop (best cb) (val_loss num m x y batch_size validation_split)
               epochs (length h) \<and>
             stops_when_stale (val_loss num m x y batch_size validation_split)
               epochs (length h)
         | _ \<Rightarrow> False))"

text \<open>
  The table of the model summary as the notebook's output cell shows it: layer,
  output shape and number of parameters; and the three totals below it.
\<close>

definition recorded_summary :: "(layer \<times> nat list \<times> nat) list" where
  "recorded_summary =
     [(InputLayer [500], [500], 0),
      (Embedding 10000 32, [500, 32], 320000),
      (LSTM 32 True, [500, 32], 8320),
      (Attention, [500, 32], 0),
      (Flatten, [16000], 0),
      (Dense 1 Sigmoid, [1], 16001)]"

definition recorded_totals :: "nat \<times> nat \<times> nat" where
  "recorded_totals = (344321, 344321, 0)"

text \<open>
  The validation losses the notebook's output cells show, per \<^verbatim>\<open>fit\<close> and epoch,
  in the order of the four \<^verbatim>\<open>fit\<close> calls.
\<close>

definition recorded_val_loss :: "real list list" where
  "recorded_val_loss =
     [[0.4371, 0.4366, 0.4364, 0.4602, 0.5164],
      [0.3558, 0.3172, 0.3055, 0.3379, 0.3490],
      [0.3581, 0.3231],
      [0.3283, 0.2830, 0.3176, 0.3553]]"

text \<open>The four arrays of the dataset, as the namespace holds them.\<close>

definition dataset ::
  "globals \<Rightarrow> ndarray option \<times> int list option \<times> ndarray option \<times> int list option" where
  "dataset g = (input_train g, y_train g, input_test g, y_test g)"

text \<open>The model variables of the notebook, and the steps of its run in their order.\<close>

definition the_models :: "string list" where
  "the_models = [''rnn_model'', ''lstm_model'', ''gru_model'', ''lstm_model_with_attention'']"

definition the_steps :: "step list" where
  "the_steps =
     [Output, Load, Output, Output, Output, Pad, Pad, Output, Output,
      Construct ''rnn_model'', Construct ''lstm_model'', Construct ''gru_model'',
      Train ''rnn_model'', Test ''rnn_model'', Output,
      Train ''lstm_model'', Test ''lstm_model'', Output,
      Train ''gru_model'', Test ''gru_model'', Output,
      Construct ''lstm_model_with_attention'', Summarise ''lstm_model_with_attention'',
      Train ''lstm_model_with_attention'', Test ''lstm_model_with_attention'', Output]"

text \<open>
  Loading before padding; and for every model: padding and construction before its
  training, the training right before its evaluation, and a line of output right
  after the evaluation.
\<close>

definition in_order :: "step list \<Rightarrow> bool" where
  "in_order s =
     (all_before Load Pad s \<and>
      list_all (\<lambda>v. all_before Pad (Train v) s \<and>
                     all_before (Construct v) (Train v) s \<and>
                     all_before (Train v) (Test v) s \<and>
                     followed_by (Train v) (Test v) s \<and>
                     followed_by (Test v) Output s) the_models)"

text \<open>What the constructor of an early-stopping callback was given.\<close>

definition config :: "early_stopping \<Rightarrow> string \<times> nat \<times> real" where
  "config cb = (monitor cb, patience cb, min_delta cb)"

text \<open>Data to run the model on: a small file, one of the size of the dataset, and numbers.\<close>

definition small_file :: imdb_file where
  "small_file =
     \<lparr>file_x_train = [[11, 20000, 5], replicate 600 7], file_y_train = [1, 0],
      file_x_test = [[8, 9996, 9997]], file_y_test = [1]\<rparr>"

definition sized_file :: imdb_file where
  "sized_file =
     \<lparr>file_x_train = replicate 25000 [11, 20000, 5], file_y_train = replicate 25000 1,
      file_x_test = replicate 25000 (replicate 600 7), file_y_test = replicate 25000 0\<rparr>"

definition flat_numerics :: numerics where
  "flat_numerics =
     \<lparr>train_logs = (\<lambda>m x y batch_size validation_split epoch k. 1 / 2),
      test_scores = (\<lambda>m x y k. 1 / 2)\<rparr>"

text \<open>
  Numbers that replay the output cells: the validation loss of a model at an epoch
  is the one the output cell of this model shows, and 1 after its last epoch.
\<close>

definition recorded_row :: "model \<Rightarrow> real list" where
  "recorded_row m =
     (let ls = layers_of (arch m)
      in if SimpleRNN 32 False \<in> set ls then recorded_val_loss ! 0
         else if LSTM 32 False \<in> set ls then recorded_val_loss ! 1
         else if GRU 32 False \<in> set ls then recorded_val_loss ! 2
         else recorded_val_loss ! 3)"

definition recorded_numerics :: numerics where
  "recorded_numerics =
     \<lparr>train_logs = (\<lambda>m x y batch_size validation_split epoch k.
        if epoch < length (recorded_row m) then recorded_row m ! epoch else 1),
      test_scores = (\<lambda>m x y k. 1 / 2)\<rparr>"

text \<open>The history a \<^verbatim>\<open>fit\<close> call returns.\<close>

definition history_of :: "numerics \<Rightarrow> fit_call \<Rightarrow> logs list option" where
  "history_of num c =
     (case c of (v, m, x, y, epochs, batch_size, validation_split, cbs) \<Rightarrow>
        (case fit num m x y epochs batch_size validation_split cbs of
           Inl err \<Rightarrow> None
         | Inr (h, r) \<Rightarrow> Some h))"


section \<open>Loading and padding\<close>

lemma pad_row_pos:
  "0 < maxlen \<Longrightarrow>
   pad_row maxlen s = Inr (replicate (maxlen - length s) 0 @ drop (length s - maxlen) s)"
  by (cases "s = []") (auto simp add: pad_row_def Let_def)

lemma pad_rows_pos:
  "0 < maxlen \<Longrightarrow>
   pad_rows maxlen ss =
     Inr (map (\<lambda>s. replicate (maxlen - length s) 0 @ drop (length s - maxlen) s) ss)"
  by (induction ss) (simp_all add: pad_row_pos)

lemma load_split:
  "load_data VOCAB_SIZE f =
     ((loaded_train f, file_y_train f), (loaded_test f, file_y_test f))"
  by (simp add: loaded_train_def loaded_test_def load_data_def Let_def)

lemma load_tokens:
  assumes "2 < num_words" and "load_data num_words f = ((xa, ya), (xt, yt))"
  shows "list_all (list_all (\<lambda>w. 0 \<le> w \<and> w < int num_words)) (xa @ xt)"
  using assms
  by (auto simp: load_data_def Let_def list_all_iff oov_char_def skip_top_def
           dest!: in_set_takeD in_set_dropD)

lemma pad_sequences_pos:
  "0 < maxlen \<Longrightarrow>
   pad_sequences ss maxlen =
     Inr \<lparr>rows = map (\<lambda>s. replicate (maxlen - length s) 0 @ drop (length s - maxlen) s) ss,
          ncols = maxlen\<rparr>"
  by (simp add: pad_sequences_def pad_rows_pos)

lemma pad_sequences_rows:
  assumes "0 < maxlen" and "pad_sequences ss maxlen = Inr a"
  shows "ncols a = maxlen" and "list_all2 (padded_to maxlen) ss (rows a)"
  using assms
  by (auto simp: pad_sequences_pos padded_to_def list_all2_conv_all_nth)

lemma pad_keeps_tokens:
  assumes "0 < maxlen" and "pad_sequences ss maxlen = Inr a"
    and "list_all (list_all (\<lambda>w. 0 \<le> w \<and> w < int d)) ss" and "0 < d"
  shows "lookups_ok d a"
  using assms
  by (auto simp: pad_sequences_pos lookups_ok_def embedding_lookup_def list_all_iff
           dest!: in_set_dropD)

section \<open>The models and their calls\<close>

lemma build_model_arch:
  "arch (build_model c) = Sequential [Embedding VOCAB_SIZE 32, c 32 False, Dense 1 Sigmoid]"
  by (simp add: build_model_def compile_def Model_def)

lemma build_model2_arch:
  "arch (build_model2 c u) =
     Functional
       [\<lparr>node_layer = InputLayer [MAXLEN], inbound = [], trainable = True\<rparr>,
        \<lparr>node_layer = Embedding VOCAB_SIZE u, inbound = [0], trainable = True\<rparr>,
        \<lparr>node_layer = c u True, inbound = [1], trainable = True\<rparr>,
        \<lparr>node_layer = Attention, inbound = [2, 2], trainable = True\<rparr>,
        \<lparr>node_layer = Flatten, inbound = [3], trainable = True\<rparr>,
        \<lparr>node_layer = Dense 1 Sigmoid, inbound = [4], trainable = True\<rparr>] 0 5"
  by (simp add: build_model2_def compile_def Model_def apply_layer_def)

lemma build_model_compiled: "compiled (build_model c) = Some adam_cfg"
  by (simp add: build_model_def compile_def Model_def adam_cfg_def)

lemma build_model2_compiled: "compiled (build_model2 c u) = Some adam_cfg"
  by (simp add: build_model2_def compile_def Model_def apply_layer_def adam_cfg_def)

lemma call_model_arch: "arch m = arch m' \<Longrightarrow> call_model m x = call_model m' x"
  by (simp add: call_model_def)

lemma call_model_build_model:
  assumes "lookups_ok VOCAB_SIZE x" and "c = SimpleRNN \<or> c = LSTM \<or> c = GRU"
  shows "call_model (build_model c) x = Inr ()"
  using assms
  by (auto simp add: call_model_def build_model_arch input_ok_def layers_of_def)

lemma call_model_build_model2:
  assumes "lookups_ok VOCAB_SIZE x" and "c = SimpleRNN \<or> c = LSTM \<or> c = GRU"
    and "ncols x = MAXLEN" and "list_all (\<lambda>r. length r = MAXLEN) (rows x)"
  shows "call_model (build_model2 c u) x = Inr ()"
  using assms
  by (auto simp add: call_model_def build_model2_arch input_ok_def layers_of_def)

lemma fit_loop_callbacks: "length (snd (fit_loop el n e cbs h)) = length cbs"
proof (induction n arbitrary: e cbs h)
  case 0
  show ?case by simp
next
  case (Suc n)
  show ?case by (simp add: Let_def split_def Suc epoch_end_all_def)
qed

lemma run_epochs_single: "\<exists>cb'. snd (run_epochs num cfg m x y e b v [cb]) = [cb']"
proof -
  have "length (snd (run_epochs num cfg m x y e b v [cb])) = 1"
    by (simp add: run_epochs_def Let_def fit_loop_callbacks)
  then show ?thesis
    by (cases "snd (run_epochs num cfg m x y e b v [cb])") auto
qed

lemma fit_run_epochs:
  assumes "compiled m = Some cfg" and "call_model m x = Inr ()"
  shows "fit num m x y e b v cbs =
     Inr (fst (run_epochs num cfg m x y e b v cbs),
          m\<lparr>epochs_trained :=
               epochs_trained m + length (fst (run_epochs num cfg m x y e b v cbs))\<rparr>,
          snd (run_epochs num cfg m x y e b v cbs))"
  using assms by (simp add: fit_def split_def Let_def)

lemma fit_single:
  assumes "compiled m = Some cfg" and "call_model m x = Inr ()"
  shows "\<exists>h cb'. fit num m x y e b v [cb] =
           Inr (h, m\<lparr>epochs_trained := epochs_trained m + length h\<rparr>, [cb'])"
  using run_epochs_single [of num cfg m x y e b v cb]
    fit_run_epochs [OF assms, of num y e b v "[cb]"]
  by auto

lemma fit_arch: "fit num m x y e b v cbs = Inr (h, m1, cbs1) \<Longrightarrow> arch m1 = arch m"
  by (auto simp: fit_def Let_def split_def split: option.splits sum.splits)

lemma fit_compiled: "fit num m x y e b v cbs = Inr (h, m1, cbs1) \<Longrightarrow> compiled m1 = compiled m"
  by (auto simp: fit_def Let_def split_def split: option.splits sum.splits)




lemma evaluate_scores:
  assumes "compiled m = Some adam_cfg" and "call_model m x = Inr ()"
  shows "evaluate num m x y = Inr (scores num m x y)"
  using assms by (simp add: evaluate_def adam_cfg_def scores_def)

lemma test_line_scores: "test_line (scores num m x y) = Inr (report num m x y)"
  by (simp add: test_line_def and_then_def index_def scores_def report_def)


section \<open>The run of the notebook\<close>

text \<open>
  The notebook runs to its end on every dataset file: none of the failures of the
  embedding occurs (a sequence that does not fit its row, an input that does not fit
  the declared shape, a token outside the embedding table, a model that is not
  compiled, a variable that is not set, a result list that is too short). The lemma
  gives the calls the run makes, their results, and the namespace and the trace it
  leaves.
\<close>

lemma notebook_run:
  obtains g xa xt h1 m1 c1 h2 m2 c2 h3 m3 c3 h4 m4 c4 where
    "notebook num f = Inr g"
    "pad_sequences (loaded_train f) MAXLEN = Inr xa"
    "pad_sequences (loaded_test f) MAXLEN = Inr xt"
    "fit num (build_model SimpleRNN) xa (file_y_train f) 10 BATCH_SIZE 0.2
       [EarlyStopping ''val_loss'' 2] = Inr (h1, m1, [c1])"
    "fit num (build_model LSTM) xa (file_y_train f) 10 BATCH_SIZE 0.2 [c1] =
       Inr (h2, m2, [c2])"
    "fit num (build_model GRU) xa (file_y_train f) 10 BATCH_SIZE 0.2 [c2] =
       Inr (h3, m3, [c3])"
    "fit num (build_model2 LSTM 32) xa (file_y_train f) 10 BATCH_SIZE 0.2 [c3] =
       Inr (h4, m4, [c4])"
    "evaluate num m1 xt (file_y_test f) = Inr (scores num m1 xt (file_y_test f))"
    "evaluate num m2 xt (file_y_test f) = Inr (scores num m2 xt (file_y_test f))"
    "evaluate num m3 xt (file_y_test f) = Inr (scores num m3 xt (file_y_test f))"
    "evaluate num m4 xt (file_y_test f) = Inr (scores num m4 xt (file_y_test f))"
    "g = \<lparr>input_train = Some xa, y_train = Some (file_y_train f),
          input_test = Some xt, y_test = Some (file_y_test f),
          rnn_model = Some m1, lstm_model = Some m2, gru_model = Some m3,
          callback = Some c4,
          history = Some h1, results = Some (scores num m1 xt (file_y_test f)),
          history_LSTM = Some h2, results_LSTM = Some (scores num m2 xt (file_y_test f)),
          history_GRU = Some h3, results_GRU = Some (scores num m3 xt (file_y_test f)),
          lstm_model_with_attention = Some m4,
          history_attention = Some h4,
          results_attention = Some (scores num m4 xt (file_y_test f)),
          trace =
            [Print [PStr ''Loading data...''],
             Load_data VOCAB_SIZE,
             Print [PInt (int (length (loaded_train f))), PStr ''train sequences''],
             Print [PInt (int (length (loaded_test f))), PStr ''test sequences''],
             Print [PStr ''Pad sequences (samples x time)''],
             Pad_sequences (loaded_train f) MAXLEN,
             Pad_sequences (loaded_test f) MAXLEN,
             Print [PStr ''input_train shape:'', PTuple (shape xa)],
             Print [PStr ''input_test shape:'', PTuple (shape xt)],
             Build_model ''rnn_model'' (build_model SimpleRNN),
             Build_model ''lstm_model'' (build_model LSTM),
             Build_model ''gru_model'' (build_model GRU),
             Fit ''rnn_model'' (build_model SimpleRNN) xa (file_y_train f) 10 BATCH_SIZE 0.2
               [EarlyStopping ''val_loss'' 2],
             Evaluate ''rnn_model'' m1 xt (file_y_test f),
             Print (report num m1 xt (file_y_test f)),
             Fit ''lstm_model'' (build_model LSTM) xa (file_y_train f) 10 BATCH_SIZE 0.2 [c1],
             Evaluate ''lstm_model'' m2 xt (file_y_test f),
             Print (report num m2 xt (file_y_test f)),
             Fit ''gru_model'' (build_model GRU) xa (file_y_train f) 10 BATCH_SIZE 0.2 [c2],
             Evaluate ''gru_model'' m3 xt (file_y_test f),
             Print (report num m3 xt (file_y_test f)),
             Build_model ''lstm_model_with_attention'' (build_model2 LSTM 32),
             Summary ''lstm_model_with_attention''
               (summary (arch (build_model2 LSTM 32)) [MAXLEN]),
             Fit ''lstm_model_with_attention'' (build_model2 LSTM 32) xa (file_y_train f) 10
               BATCH_SIZE 0.2 [c3],
             Evaluate ''lstm_model_with_attention'' m4 xt (file_y_test f),
             Print (report num m4 xt (file_y_test f))]\<rparr>"
proof -
  obtain xa xt where pa: "pad_sequences (loaded_train f) MAXLEN = Inr xa"
    and pt: "pad_sequences (loaded_test f) MAXLEN = Inr xt"
    by (simp add: pad_sequences_pos MAXLEN_def)
  have tok: "list_all (list_all (\<lambda>w. 0 \<le> w \<and> w < int VOCAB_SIZE))
               (loaded_train f @ loaded_test f)"
    by (rule load_tokens [OF _ load_split]) (simp add: VOCAB_SIZE_def)
  have la: "lookups_ok VOCAB_SIZE xa"
    using tok by (intro pad_keeps_tokens [OF _ pa]) (simp_all add: MAXLEN_def VOCAB_SIZE_def)
  have lt: "lookups_ok VOCAB_SIZE xt"
    using tok by (intro pad_keeps_tokens [OF _ pt]) (simp_all add: MAXLEN_def VOCAB_SIZE_def)
  have sa: "ncols xa = MAXLEN" "list_all (\<lambda>r. length r = MAXLEN) (rows xa)"
    using pa by (auto simp: pad_sequences_pos MAXLEN_def list_all_iff)
  have st: "ncols xt = MAXLEN" "list_all (\<lambda>r. length r = MAXLEN) (rows xt)"
    using pt by (auto simp: pad_sequences_pos MAXLEN_def list_all_iff)
  have ca: "call_model (build_model c) xa = Inr ()"
    and ct: "call_model (build_model c) xt = Inr ()"
    if "c = SimpleRNN \<or> c = LSTM \<or> c = GRU" for c
    using that la lt by (simp_all add: call_model_build_model)
  have ca2: "call_model (build_model2 LSTM 32) xa = Inr ()"
    and ct2: "call_model (build_model2 LSTM 32) xt = Inr ()"
    using la lt sa st by (simp_all add: call_model_build_model2)
  obtain h1 m1 c1 where f1:
    "fit num (build_model SimpleRNN) xa (file_y_train f) 10 BATCH_SIZE 0.2
       [EarlyStopping ''val_loss'' 2] = Inr (h1, m1, [c1])"
    using fit_single [OF build_model_compiled ca] by blast
  obtain h2 m2 c2 where f2:
    "fit num (build_model LSTM) xa (file_y_train f) 10 BATCH_SIZE 0.2 [c1] =
       Inr (h2, m2, [c2])"
    using fit_single [OF build_model_compiled ca] by blast
  obtain h3 m3 c3 where f3:
    "fit num (build_model GRU) xa (file_y_train f) 10 BATCH_SIZE 0.2 [c2] =
       Inr (h3, m3, [c3])"
    using fit_single [OF build_model_compiled ca] by blast
  obtain h4 m4 c4 where f4:
    "fit num (build_model2 LSTM 32) xa (file_y_train f) 10 BATCH_SIZE 0.2 [c3] =
       Inr (h4, m4, [c4])"
    using fit_single [OF build_model2_compiled ca2] by blast
  have e1: "evaluate num m1 xt y = Inr (scores num m1 xt y)" for y
    using fit_compiled [OF f1] call_model_arch [OF fit_arch [OF f1], of xt]
    by (intro evaluate_scores) (simp_all add: build_model_compiled ct)
  have e2: "evaluate num m2 xt y = Inr (scores num m2 xt y)" for y
    using fit_compiled [OF f2] call_model_arch [OF fit_arch [OF f2], of xt]
    by (intro evaluate_scores) (simp_all add: build_model_compiled ct)
  have e3: "evaluate num m3 xt y = Inr (scores num m3 xt y)" for y
    using fit_compiled [OF f3] call_model_arch [OF fit_arch [OF f3], of xt]
    by (intro evaluate_scores) (simp_all add: build_model_compiled ct)
  have e4: "evaluate num m4 xt y = Inr (scores num m4 xt y)" for y
    using fit_compiled [OF f4] call_model_arch [OF fit_arch [OF f4], of xt]
    by (intro evaluate_scores) (simp_all add: build_model2_compiled ct2)
  note fs = f1 [simplified] f2 [simplified] f3 [simplified] f4 [simplified]
  have g1: "cell1 num f fresh_kernel =
     Inr (fresh_kernel
       \<lparr>input_train := Some xa, y_train := Some (file_y_train f),
        input_test := Some xt, y_test := Some (file_y_test f),
        rnn_model := Some m1, lstm_model := Some (build_model LSTM),
        gru_model := Some (build_model GRU), callback := Some c1,
        history := Some h1, results := Some (scores num m1 xt (file_y_test f)),
        trace :=
          [Print [PStr ''Loading data...''],
           Load_data VOCAB_SIZE,
           Print [PInt (int (length (loaded_train f))), PStr ''train sequences''],
           Print [PInt (int (length (loaded_test f))), PStr ''test sequences''],
           Print [PStr ''Pad sequences (samples x time)''],
           Pad_sequences (loaded_train f) MAXLEN,
           Pad_sequences (loaded_test f) MAXLEN,
           Print [PStr ''input_train shape:'', PTuple (shape xa)],
           Print [PStr ''input_test shape:'', PTuple (shape xt)],
           Build_model ''rnn_model'' (build_model SimpleRNN),
           Build_model ''lstm_model'' (build_model LSTM),
           Build_model ''gru_model'' (build_model GRU),
           Fit ''rnn_model'' (build_model SimpleRNN) xa (file_y_train f) 10 BATCH_SIZE 0.2
             [EarlyStopping ''val_loss'' 2],
           Evaluate ''rnn_model'' m1 xt (file_y_test f),
           Print (report num m1 xt (file_y_test f))]\<rparr>)"
    using fs
    by (simp add: cell1_def load_split pa pt Let_def and_then_def e1 test_line_scores
          fresh_kernel_def)
  show ?thesis
  proof (rule that [OF _ pa pt f1 f2 f3 f4 e1 e2 e3 e4])
    show "notebook num f = Inr \<lparr>input_train = Some xa, y_train = Some (file_y_train f),
          input_test = Some xt, y_test = Some (file_y_test f),
          rnn_model = Some m1, lstm_model = Some m2, gru_model = Some m3,
          callback = Some c4,
          history = Some h1, results = Some (scores num m1 xt (file_y_test f)),
          history_LSTM = Some h2, results_LSTM = Some (scores num m2 xt (file_y_test f)),
          history_GRU = Some h3, results_GRU = Some (scores num m3 xt (file_y_test f)),
          lstm_model_with_attention = Some m4,
          history_attention = Some h4,
          results_attention = Some (scores num m4 xt (file_y_test f)),
          trace =
            [Print [PStr ''Loading data...''],
             Load_data VOCAB_SIZE,
             Print [PInt (int (length (loaded_train f))), PStr ''train sequences''],
             Print [PInt (int (length (loaded_test f))), PStr ''test sequences''],
             Print [PStr ''Pad sequences (samples x time)''],
             Pad_sequences (loaded_train f) MAXLEN,
             Pad_sequences (loaded_test f) MAXLEN,
             Print [PStr ''input_train shape:'', PTuple (shape xa)],
             Print [PStr ''input_test shape:'', PTuple (shape xt)],
             Build_model ''rnn_model'' (build_model SimpleRNN),
             Build_model ''lstm_model'' (build_model LSTM),
             Build_model ''gru_model'' (build_model GRU),
             Fit ''rnn_model'' (build_model SimpleRNN) xa (file_y_train f) 10 BATCH_SIZE 0.2
               [EarlyStopping ''val_loss'' 2],
             Evaluate ''rnn_model'' m1 xt (file_y_test f),
             Print (report num m1 xt (file_y_test f)),
             Fit ''lstm_model'' (build_model LSTM) xa (file_y_train f) 10 BATCH_SIZE 0.2 [c1],
             Evaluate ''lstm_model'' m2 xt (file_y_test f),
             Print (report num m2 xt (file_y_test f)),
             Fit ''gru_model'' (build_model GRU) xa (file_y_train f) 10 BATCH_SIZE 0.2 [c2],
             Evaluate ''gru_model'' m3 xt (file_y_test f),
             Print (report num m3 xt (file_y_test f)),
             Build_model ''lstm_model_with_attention'' (build_model2 LSTM 32),
             Summary ''lstm_model_with_attention''
               (summary (arch (build_model2 LSTM 32)) [MAXLEN]),
             Fit ''lstm_model_with_attention'' (build_model2 LSTM 32) xa (file_y_train f) 10
               BATCH_SIZE 0.2 [c3],
             Evaluate ''lstm_model_with_attention'' m4 xt (file_y_test f),
             Print (report num m4 xt (file_y_test f))]\<rparr>"
      unfolding notebook_def g1 using fs
      by (simp add: and_then_def cell2_def cell3_def cell4_def cell5_def
            name_def e2 e3 e4 test_line_scores fresh_kernel_def Let_def)
  qed simp
qed


section \<open>The four models\<close>







section \<open>Padding and truncation of the reviews\<close>

lemma length_loaded:
  "length (loaded_train f) = length (file_x_train f)"
  "length (loaded_test f) = length (file_x_test f)"
  by (simp_all add: loaded_train_def loaded_test_def load_data_def Let_def)

lemma padded_has_shape:
  assumes "pad_sequences ss MAXLEN = Inr a"
  shows "has_shape a (length ss) 500"
  using assms
  by (auto simp: pad_sequences_pos MAXLEN_def has_shape_def shape_def list_all_iff)

text \<open>
  Claim C2. The notebook pads the training and the test reviews to arrays whose rows
  all have exactly 500 entries: a review of more than 500 tokens is cut to its last
  500 tokens, a shorter one is filled up with zeros in front. Each array has one row
  per review, so its shape is (number of reviews, 500): (25000, 500) for the 25000
  reviews of either part of the dataset.
\<close>

theorem padded_to_maxlen:
  "\<exists>g xa xt. notebook num f = Inr g \<and>
     input_train g = Some xa \<and> input_test g = Some xt \<and>
     pad_sequences (loaded_train f) MAXLEN = Inr xa \<and>
     pad_sequences (loaded_test f) MAXLEN = Inr xt \<and>
     list_all2 (padded_to 500) (loaded_train f) (rows xa) \<and>
     list_all2 (padded_to 500) (loaded_test f) (rows xt) \<and>
     has_shape xa (length (file_x_train f)) 500 \<and>
     has_shape xt (length (file_x_test f)) 500"
proof (rule notebook_run [of num f], goal_cases)
  case (1 g xa xt h1 m1 c1 h2 m2 c2 h3 m3 c3 h4 m4 c4)
  have "list_all2 (padded_to 500) (loaded_train f) (rows xa)"
    and "list_all2 (padded_to 500) (loaded_test f) (rows xt)"
    using pad_sequences_rows(2) [OF _ 1(2)] pad_sequences_rows(2) [OF _ 1(3)]
    by (simp_all add: MAXLEN_def)
  moreover have "has_shape xa (length (file_x_train f)) 500"
    and "has_shape xt (length (file_x_test f)) 500"
    using padded_has_shape [OF 1(2)] padded_has_shape [OF 1(3)]
    by (simp_all add: length_loaded)
  ultimately show ?case
    using 1(1-3) by (simp add: 1(12))
qed

theorem padded_to_maxlen_witness:
  "\<exists>g xa xt. notebook flat_numerics sized_file = Inr g \<and>
     input_train g = Some xa \<and> input_test g = Some xt \<and>
     has_shape xa 25000 500 \<and> has_shape xt 25000 500"
  using padded_to_maxlen [of flat_numerics sized_file]
  by (auto simp: sized_file_def)

lemma padded_to_examples:
  "padded_to 5 [1, 2, 3] [0, 0, 1, 2, 3]"
  "padded_to 2 [1, 2, 3] [2, 3]"
  "pad_sequences [[1, 2, 3], [], [4, 5]] 2 = Inr \<lparr>rows = [[2, 3], [0, 0], [4, 5]], ncols = 2\<rparr>"
  "pad_sequences [[1, 2, 3]] 0 = Inl ValueError"
  by (simp_all add: padded_to_def pad_sequences_def pad_row_def numeral_2_eq_2)

section \<open>The order of the steps\<close>

lemma the_steps_in_order: "in_order the_steps"
  by code_simp

lemma attention_model_built_last:
  "all_before (Test ''gru_model'') (Construct ''lstm_model_with_attention'') the_steps"
  by code_simp

text \<open>
  Claim C3. The steps of the run are one sequence: the dataset is loaded, the two
  arrays are padded, and then, for each model, the model is constructed, trained,
  evaluated and its metrics printed, in this order. Loading comes before padding; no
  model is trained before both arrays are padded or before it is constructed; every
  model is evaluated right after its own training, on the model that this training
  returned; and the line of output follows right after the evaluation. The three
  models of cell 1 are constructed before any training; the model with attention is
  constructed after the first three have been trained and evaluated.
\<close>

theorem steps_in_order:
  "\<exists>g. notebook num f = Inr g \<and>
     map step_of (trace g) = the_steps \<and>
     in_order (map step_of (trace g)) \<and>
     trained_then_tested num (fit_calls (trace g)) (evaluate_calls (trace g))"
proof (rule notebook_run [of num f], goal_cases)
  case (1 g xa xt h1 m1 c1 h2 m2 c2 h3 m3 c3 h4 m4 c4)
  have s: "map step_of (trace g) = the_steps"
    by (simp add: 1(12) the_steps_def)
  have "trained_then_tested num (fit_calls (trace g)) (evaluate_calls (trace g))"
    using 1(4-7) by (simp add: 1(12))
  then show ?case
    using 1(1) s the_steps_in_order by simp
qed

theorem steps_in_order_witness:
  "\<exists>g. notebook flat_numerics small_file = Inr g \<and>
     map step_of (trace g) = the_steps \<and>
     in_order (map step_of (trace g)) \<and>
     trained_then_tested flat_numerics (fit_calls (trace g)) (evaluate_calls (trace g))"
  by (rule steps_in_order)


section \<open>The dataset is the same for every model\<close>

lemma and_then_Inr:
  assumes "and_then r k = Inr b"
  obtains a where "r = Inr a" and "k a = Inr b"
  using assms by (cases r) (simp_all add: and_then_def)

lemma train_cell_frame:
  assumes "and_then (name (mv g)) (\<lambda>m.
     and_then (name (input_train g)) (\<lambda>x.
     and_then (name (y_train g)) (\<lambda>y.
     and_then (name (callback g)) (\<lambda>cb.
     and_then (fit num m x y 10 BATCH_SIZE 0.2 [cb]) (\<lambda>(h, m1, callbacks).
     and_then (name (input_test g)) (\<lambda>xt.
     and_then (name (y_test g)) (\<lambda>yt.
     and_then (evaluate num m1 xt yt) (\<lambda>res.
     and_then (test_line res) (\<lambda>line.
       Inr (upd m x y cb h m1 callbacks xt yt res line)))))))))) = Inr g'"
    and "\<And>m x y cb h m1 callbacks xt yt res line.
           dataset (upd m x y cb h m1 callbacks xt yt res line) = dataset g"
  shows "dataset g' = dataset g"
proof -
  have triple: thesis
    if "(case r of (h, m1, callbacks) \<Rightarrow> K h m1 callbacks) = Inr b"
      and "\<And>h m1 callbacks. K h m1 callbacks = Inr b \<Longrightarrow> thesis"
    for r :: "logs list \<times> model \<times> early_stopping list" and b :: globals and K thesis
    using that by (cases r) auto
  from assms(1) obtain m x y cb h m1 callbacks xt yt res line
    where "Inr (upd m x y cb h m1 callbacks xt yt res line) = Inr g'"
    by (elim and_then_Inr triple) blast
  then show ?thesis
    using assms(2) by auto
qed

lemma cells_keep_dataset:
  "cell2 num g = Inr g' \<Longrightarrow> dataset g' = dataset g"
  "cell3 num g = Inr g' \<Longrightarrow> dataset g' = dataset g"
  "cell4 g = Inr g' \<Longrightarrow> dataset g' = dataset g"
  "cell5 num g = Inr g' \<Longrightarrow> dataset g' = dataset g"
proof -
  show "cell2 num g = Inr g' \<Longrightarrow> dataset g' = dataset g"
    unfolding cell2_def by (erule train_cell_frame) (simp add: dataset_def)
  show "cell3 num g = Inr g' \<Longrightarrow> dataset g' = dataset g"
    unfolding cell3_def by (erule train_cell_frame) (simp add: dataset_def)
  show "cell4 g = Inr g' \<Longrightarrow> dataset g' = dataset g"
    by (auto simp: cell4_def Let_def dataset_def)
  show "cell5 num g = Inr g' \<Longrightarrow> dataset g' = dataset g"
    unfolding cell5_def by (erule train_cell_frame) (simp add: dataset_def)
qed

text \<open>
  Claim C4. The four arrays are assigned in cell 1 and by no later cell: each of the
  cells 2 to 5, run on any namespace, leaves \<^verbatim>\<open>input_train\<close>, \<^verbatim>\<open>y_train\<close>,
  \<^verbatim>\<open>input_test\<close> and \<^verbatim>\<open>y_test\<close> as they are. In the run of the notebook all
  four \<^verbatim>\<open>fit\<close> calls receive the same padded training array and the same training
  labels, all four \<^verbatim>\<open>evaluate\<close> calls receive the same padded test array and the
  same test labels, and these are the arrays the namespace holds at the end.
\<close>

theorem dataset_fixed:
  "(\<exists>g xa xt. notebook num f = Inr g \<and>
      pad_sequences (loaded_train f) MAXLEN = Inr xa \<and>
      pad_sequences (loaded_test f) MAXLEN = Inr xt \<and>
      map (\<lambda>(v, m, x, y, r). (x, y)) (fit_calls (trace g)) =
        replicate 4 (xa, file_y_train f) \<and>
      map (\<lambda>(v, m, x, y). (x, y)) (evaluate_calls (trace g)) =
        replicate 4 (xt, file_y_test f) \<and>
      dataset g = (Some xa, Some (file_y_train f), Some xt, Some (file_y_test f))) \<and>
   (\<forall>k k'. cell2 num k = Inr k' \<or> cell3 num k = Inr k' \<or> cell4 k = Inr k' \<or>
            cell5 num k = Inr k' \<longrightarrow> dataset k' = dataset k)"
proof (rule notebook_run [of num f], goal_cases)
  case (1 g xa xt h1 m1 c1 h2 m2 c2 h3 m3 c3 h4 m4 c4)
  have "map (\<lambda>(v, m, x, y, r). (x, y)) (fit_calls (trace g)) = replicate 4 (xa, file_y_train f)"
    and "map (\<lambda>(v, m, x, y). (x, y)) (evaluate_calls (trace g)) =
           replicate 4 (xt, file_y_test f)"
    and "dataset g = (Some xa, Some (file_y_train f), Some xt, Some (file_y_test f))"
    by (simp_all add: 1(12) dataset_def numeral_eq_Suc)
  moreover have "dataset k' = dataset k"
    if "cell2 num k = Inr k' \<or> cell3 num k = Inr k' \<or> cell4 k = Inr k' \<or>
        cell5 num k = Inr k'" for k k'
    using that cells_keep_dataset by blast
  ultimately show ?case
    using 1(1-3) by (intro conjI exI allI impI) assumption+
qed

theorem dataset_fixed_witness:
  "(\<exists>g xa xt. notebook flat_numerics small_file = Inr g \<and>
      pad_sequences (loaded_train small_file) MAXLEN = Inr xa \<and>
      pad_sequences (loaded_test small_file) MAXLEN = Inr xt \<and>
      map (\<lambda>(v, m, x, y, r). (x, y)) (fit_calls (trace g)) = replicate 4 (xa, [1, 0]) \<and>
      map (\<lambda>(v, m, x, y). (x, y)) (evaluate_calls (trace g)) = replicate 4 (xt, [1]) \<and>
      dataset g = (Some xa, Some [1, 0], Some xt, Some [1])) \<and>
   (\<exists>k k'. cell1 flat_numerics small_file fresh_kernel = Inr k \<and>
      cell2 flat_numerics k = Inr k' \<and> dataset k' = dataset k)"
proof -
  obtain g where "notebook flat_numerics small_file = Inr g"
    by (rule notebook_run)
  then obtain k k' where k: "cell1 flat_numerics small_file fresh_kernel = Inr k"
    and k': "cell2 flat_numerics k = Inr k'"
    unfolding notebook_def by (elim and_then_Inr)
  have "dataset k' = dataset k"
    using dataset_fixed [of flat_numerics small_file] k' by blast
  with k k' dataset_fixed [of flat_numerics small_file] show ?thesis
    by (simp add: small_file_def)
qed

section \<open>Compilation and the early-stopping callback\<close>

lemma on_epoch_end_config: "config (fst (on_epoch_end cb e lg)) = config cb"
  by (simp add: on_epoch_end_def config_def Let_def split: option.splits)

lemma fit_loop_config: "map config (snd (fit_loop el n e cbs h)) = map config cbs"
proof (induction n arbitrary: e cbs h)
  case 0
  show ?case by simp
next
  case (Suc n)
  show ?case
    by (simp add: Let_def split_def Suc epoch_end_all_def on_epoch_end_config comp_def)
qed

lemma fit_config:
  assumes "fit num m x y e b v cbs = Inr (h, m1, cbs1)"
  shows "map config cbs1 = map config cbs"
proof -
  have "map config (map on_train_begin cbs) = map config cbs"
    by (simp add: config_def on_train_begin_def)
  with assms show ?thesis
    by (auto simp: fit_def run_epochs_def Let_def split_def fit_loop_config
             split: option.splits sum.splits)
qed

text \<open>
  Claim C5. Each of the four models is built compiled with the optimizer
  \<^verbatim>\<open>adam\<close>, the loss \<^verbatim>\<open>binary_crossentropy\<close> and the one metric
  \<^verbatim>\<open>accuracy\<close>, and goes so compiled into its \<^verbatim>\<open>fit\<close> and its
  \<^verbatim>\<open>evaluate\<close>. Each of the four \<^verbatim>\<open>fit\<close> calls is given one callback, an
  early stopping on \<^verbatim>\<open>val_loss\<close> with a patience of 2: the first call the
  callback as constructed, every later call the callback as the call before left it.
\<close>

theorem compiled_with_early_stopping:
  "\<exists>g. notebook num f = Inr g \<and>
     length (fit_calls (trace g)) = 4 \<and>
     list_all (\<lambda>(v, m). compiled m =
         Some \<lparr>optimizer = ''adam'', loss = ''binary_crossentropy'',
               metrics = [''accuracy'']\<rparr>) (built (trace g)) \<and>
     list_all (\<lambda>(v, m, x, y, e, b, vs, cbs). compiled m = Some adam_cfg \<and>
         map config cbs = [(''val_loss'', 2, 0)]) (fit_calls (trace g)) \<and>
     list_all (\<lambda>(v, m, r). compiled m = Some adam_cfg) (evaluate_calls (trace g)) \<and>
     map (\<lambda>(v, m, x, y, e, b, vs, cbs). cbs) (take 1 (fit_calls (trace g))) =
       [[EarlyStopping ''val_loss'' 2]] \<and>
     threaded num (fit_calls (trace g))"
proof (rule notebook_run [of num f], goal_cases)
  case (1 g xa xt h1 m1 c1 h2 m2 c2 h3 m3 c3 h4 m4 c4)
  have c0: "config (EarlyStopping ''val_loss'' 2) = (''val_loss'', 2, 0)"
    by (simp add: config_def EarlyStopping_def)
  have c: "config c1 = (''val_loss'', 2, 0)" "config c2 = (''val_loss'', 2, 0)"
    "config c3 = (''val_loss'', 2, 0)"
    using fit_config [OF 1(4)] fit_config [OF 1(5)] fit_config [OF 1(6)] c0
    by simp_all
  have m: "compiled m1 = Some adam_cfg" "compiled m2 = Some adam_cfg"
    "compiled m3 = Some adam_cfg" "compiled m4 = Some adam_cfg"
    using fit_compiled [OF 1(4)] fit_compiled [OF 1(5)] fit_compiled [OF 1(6)]
      fit_compiled [OF 1(7)]
    by (simp_all add: build_model_compiled build_model2_compiled)
  have t: "threaded num (fit_calls (trace g))"
    using 1(4-7) by (simp add: 1(12))
  show ?case
    using 1(1) t
    by (simp add: 1(12) c0 c m build_model_compiled build_model2_compiled
          adam_cfg_def [symmetric])
qed

theorem compiled_with_early_stopping_witness:
  "\<exists>g. notebook flat_numerics small_file = Inr g \<and>
     length (fit_calls (trace g)) = 4 \<and>
     list_all (\<lambda>(v, m). compiled m =
         Some \<lparr>optimizer = ''adam'', loss = ''binary_crossentropy'',
               metrics = [''accuracy'']\<rparr>) (built (trace g)) \<and>
     list_all (\<lambda>(v, m, x, y, e, b, vs, cbs). compiled m = Some adam_cfg \<and>
         map config cbs = [(''val_loss'', 2, 0)]) (fit_calls (trace g)) \<and>
     list_all (\<lambda>(v, m, r). compiled m = Some adam_cfg) (evaluate_calls (trace g)) \<and>
     map (\<lambda>(v, m, x, y, e, b, vs, cbs). cbs) (take 1 (fit_calls (trace g))) =
       [[EarlyStopping ''val_loss'' 2]] \<and>
     threaded flat_numerics (fit_calls (trace g))"
  by (rule compiled_with_early_stopping)


section \<open>The model with attention\<close>

lemma summary_build_model2:
  "summary (arch (build_model2 LSTM 32)) [MAXLEN] =
     Some [\<lparr>row_layer = InputLayer [500], row_shape = [500], row_params = 0,
             row_trainable = True\<rparr>,
           \<lparr>row_layer = Embedding 10000 32, row_shape = [500, 32], row_params = 320000,
             row_trainable = True\<rparr>,
           \<lparr>row_layer = LSTM 32 True, row_shape = [500, 32], row_params = 8320,
             row_trainable = True\<rparr>,
           \<lparr>row_layer = Attention, row_shape = [500, 32], row_params = 0,
             row_trainable = True\<rparr>,
           \<lparr>row_layer = Flatten, row_shape = [16000], row_params = 0,
             row_trainable = True\<rparr>,
           \<lparr>row_layer = Dense 1 Sigmoid, row_shape = [1], row_params = 16001,
             row_trainable = True\<rparr>]"
  by (simp add: build_model2_arch summary_def graph_of_def features_def
        MAXLEN_def VOCAB_SIZE_def)

text \<open>
  Claim C6. The model in \<^verbatim>\<open>lstm_model_with_attention\<close> is the graph of six layer
  calls: an input of 500 tokens, the embedding, an LSTM that returns its whole output
  sequence, of shape (500, 32), the framework's \<^verbatim>\<open>Attention\<close> layer called on
  this sequence twice, as query and as value, with an output of the same shape
  (500, 32), \<^verbatim>\<open>Flatten\<close> on the attention output, of shape (16000), and the final
  dense unit on the flattened output. The attention in the graph is this one layer of
  the framework.
\<close>

theorem attention_on_lstm_output:
  "\<exists>g m nodes tbl. notebook num f = Inr g \<and>
     lstm_model_with_attention g = Some m \<and>
     arch m = Functional nodes 0 5 \<and>
     map node_layer nodes =
       [InputLayer [500], Embedding 10000 32, LSTM 32 True, Attention, Flatten,
        Dense 1 Sigmoid] \<and>
     map inbound nodes = [[], [0], [1], [2, 2], [3], [4]] \<and>
     summary (arch m) [MAXLEN] = Some tbl \<and>
     map row_shape tbl = [[500], [500, 32], [500, 32], [500, 32], [16000], [1]] \<and>
     output_shape Attention [[500, 32], [500, 32]] = Some [500, 32]"
proof (rule notebook_run [of num f], goal_cases)
  case (1 g xa xt h1 m1 c1 h2 m2 c2 h3 m3 c3 h4 m4 c4)
  have a: "arch m4 = arch (build_model2 LSTM 32)"
    by (rule fit_arch [OF 1(7)])
  show ?case
    using 1(1)
    by (simp add: 1(12) a summary_build_model2)
       (simp add: build_model2_arch MAXLEN_def VOCAB_SIZE_def)
qed

theorem attention_on_lstm_output_witness:
  "\<exists>g m nodes tbl. notebook flat_numerics small_file = Inr g \<and>
     lstm_model_with_attention g = Some m \<and>
     arch m = Functional nodes 0 5 \<and>
     map node_layer nodes =
       [InputLayer [500], Embedding 10000 32, LSTM 32 True, Attention, Flatten,
        Dense 1 Sigmoid] \<and>
     map inbound nodes = [[], [0], [1], [2, 2], [3], [4]] \<and>
     summary (arch m) [MAXLEN] = Some tbl \<and>
     map row_shape tbl = [[500], [500, 32], [500, 32], [500, 32], [16000], [1]] \<and>
     output_shape Attention [[500, 32], [500, 32]] = Some [500, 32]"
  by (rule attention_on_lstm_output)

section \<open>The number of parameters\<close>

text \<open>
  Claim C10. The summary of the model with attention has 344,321 parameters, all of
  them trainable and none of them not: 10000 * 32 = 320,000 of the embedding,
  4 * ((32 + 32) * 32 + 32) = 8,320 of the LSTM, 500 * 32 * 1 + 1 = 16,001 of the
  final dense layer, and none of the input, the attention and the flatten layer. The
  rows and the totals are those of the summary in the notebook's output, and the
  summary the notebook prints in cell 4 is this one.
\<close>

theorem attention_model_parameters:
  "\<exists>tbl. summary (arch (build_model2 LSTM 32)) [MAXLEN] = Some tbl \<and>
     map row_params tbl =
       [0, 10000 * 32, 4 * ((32 + 32) * 32 + 32), 0, 0, 500 * 32 * 1 + 1] \<and>
     map row_params tbl = [0, 320000, 8320, 0, 0, 16001] \<and>
     total_params tbl = 344321 \<and>
     trainable_params tbl = 344321 \<and>
     non_trainable_params tbl = 0 \<and>
     map (\<lambda>r. (row_layer r, row_shape r, row_params r)) tbl = recorded_summary \<and>
     (total_params tbl, trainable_params tbl, non_trainable_params tbl) = recorded_totals \<and>
     (\<exists>g. notebook num f = Inr g \<and>
        filter (\<lambda>e. step_of e = Summarise ''lstm_model_with_attention'') (trace g) =
          [Summary ''lstm_model_with_attention'' (Some tbl)])"
proof (rule notebook_run [of num f], goal_cases)
  case (1 g xa xt h1 m1 c1 h2 m2 c2 h3 m3 c3 h4 m4 c4)
  show ?case
    using 1(1)
    by (auto simp add: 1(12) summary_build_model2 total_params_def trainable_params_def
          non_trainable_params_def recorded_summary_def recorded_totals_def)
qed

theorem attention_model_parameters_witness:
  "\<exists>tbl. summary (arch (build_model2 LSTM 32)) [MAXLEN] = Some tbl \<and>
     map row_params tbl = [0, 320000, 8320, 0, 0, 16001] \<and>
     total_params tbl = 344321 \<and>
     trainable_params tbl = 344321 \<and>
     non_trainable_params tbl = 0 \<and>
     (\<exists>g. notebook flat_numerics small_file = Inr g \<and>
        filter (\<lambda>e. step_of e = Summarise ''lstm_model_with_attention'') (trace g) =
          [Summary ''lstm_model_with_attention'' (Some tbl)])"
  using attention_model_parameters [of flat_numerics small_file]
  by (elim exE conjE, intro exI conjI) assumption+


section \<open>The metrics of an evaluation\<close>

lemma evaluate_metrics:
  assumes "evaluate num m x y = Inr r" and "compiled m = Some cfg"
  shows "r = test_scores num m x y ''loss'' # map (test_scores num m x y) (metrics cfg)"
    and "length r = Suc (length (metrics cfg))"
  using assms by (auto simp: evaluate_def split: sum.splits)

text \<open>
  Claim C7. Each of the four \<^verbatim>\<open>evaluate\<close> calls returns a list of exactly two
  numbers, the test loss first and the test accuracy second; the notebook keeps the
  list in the result variable of the model, and the event right after the call prints
  \<^verbatim>\<open>Test Loss: \<close> with the first number and \<^verbatim>\<open> - Test Accuracy: \<close> with the
  second, and nothing else.
\<close>

theorem loss_then_accuracy:
  "\<exists>g. notebook num f = Inr g \<and>
     length (evaluate_calls (trace g)) = 4 \<and>
     list_all (\<lambda>(v, m, x, y). evaluate num m x y =
         Inr [test_scores num m x y ''loss'', test_scores num m x y ''accuracy''])
       (evaluate_calls (trace g)) \<and>
     [results g, results_LSTM g, results_GRU g, results_attention g] =
       map (\<lambda>(v, m, x, y).
              Some [test_scores num m x y ''loss'', test_scores num m x y ''accuracy''])
         (evaluate_calls (trace g)) \<and>
     reported num (trace g)"
proof (rule notebook_run [of num f], goal_cases)
  case (1 g xa xt h1 m1 c1 h2 m2 c2 h3 m3 c3 h4 m4 c4)
  have r: "reported num (trace g)"
    using 1(8-11) by (simp add: 1(12))
  show ?case
    using 1(1) 1(8-11) r
    by (simp add: 1(12) scores_def)
qed

theorem loss_then_accuracy_witness:
  "\<exists>g. notebook flat_numerics small_file = Inr g \<and>
     length (evaluate_calls (trace g)) = 4 \<and>
     list_all (\<lambda>(v, m, x, y). evaluate flat_numerics m x y = Inr [1 / 2, 1 / 2])
       (evaluate_calls (trace g)) \<and>
     [results g, results_LSTM g, results_GRU g, results_attention g] = replicate 4 (Some [1 / 2, 1 / 2]) \<and>
     reported flat_numerics (trace g)"
  using loss_then_accuracy [of flat_numerics small_file]
  by (auto simp: flat_numerics_def list_all_iff numeral_eq_Suc)

lemma reported_examples:
  "test_line [0.52, 0.83] =
     Inr [PStr ''Test Loss: '', PFloat 0.52, PStr '' - Test Accuracy: '', PFloat 0.83]"
  "test_line [0.52] = Inl IndexError"
  by (simp_all add: test_line_def and_then_def index_def)

section \<open>Token indices and the embedding table\<close>

lemma padded_tokens:
  assumes "pad_sequences ss MAXLEN = Inr a"
  shows "list_all2 (\<lambda>s r. list_all (\<lambda>w. w = 0 \<or> w \<in> set s) r) ss (rows a)"
  using assms
  by (auto simp: pad_sequences_pos MAXLEN_def list_all2_conv_all_nth list_all_iff
           dest: in_set_dropD)

lemma lookups_ok_iff:
  "lookups_ok d a = list_all (list_all (\<lambda>w. 0 \<le> w \<and> w < int d)) (rows a)"
  by (simp add: lookups_ok_def embedding_lookup_def list_all_iff)

lemma embedding_lookup_in_range:
  "0 \<le> w \<Longrightarrow> w < int d \<Longrightarrow> embedding_lookup d w = Inr (nat w)"
  by (simp add: embedding_lookup_def)

lemma embedding_dims_models:
  "embedding_dims (layers_of (arch (build_model SimpleRNN))) = [10000]"
  "embedding_dims (layers_of (arch (build_model LSTM))) = [10000]"
  "embedding_dims (layers_of (arch (build_model GRU))) = [10000]"
  "embedding_dims (layers_of (arch (build_model2 LSTM 32))) = [10000]"
  by (simp_all add: build_model_arch build_model2_arch layers_of_def VOCAB_SIZE_def)

lemma fit_call_model: "fit num m x y e b v cbs = Inr r \<Longrightarrow> call_model m x = Inr ()"
  by (auto simp: fit_def split: option.splits sum.splits)

lemma evaluate_call_model: "evaluate num m x y = Inr r \<Longrightarrow> call_model m x = Inr ()"
  by (auto simp: evaluate_def split: option.splits sum.splits)

text \<open>
  Claim C9. The loader is called with \<^verbatim>\<open>num_words = 10000\<close>, and every token it
  returns is at least 0 and below 10000; a padded row holds zeros and tokens of its
  review only; so every token of the two padded arrays is at least 0 and below 10000.
  Every model has one embedding table, of 10000 rows, every \<^verbatim>\<open>fit\<close> is on the
  padded training array and every \<^verbatim>\<open>evaluate\<close> on the padded test array, and in
  each of these calls every lookup in the table succeeds.
\<close>

theorem tokens_in_vocabulary:
  "\<exists>g xa xt. notebook num f = Inr g \<and>
     input_train g = Some xa \<and> input_test g = Some xt \<and>
     filter (\<lambda>e. step_of e = Load) (trace g) = [Load_data 10000] \<and>
     list_all (list_all (\<lambda>w. 0 \<le> w \<and> w < 10000)) (loaded_train f @ loaded_test f) \<and>
     list_all2 (\<lambda>s r. list_all (\<lambda>w. w = 0 \<or> w \<in> set s) r)
       (loaded_train f @ loaded_test f) (rows xa @ rows xt) \<and>
     list_all (list_all (\<lambda>w. 0 \<le> w \<and> w < 10000 \<and> embedding_lookup 10000 w = Inr (nat w)))
       (rows xa @ rows xt) \<and>
     list_all (\<lambda>(v, m, x, r). x = xa \<and> embedding_dims (layers_of (arch m)) = [10000] \<and>
                 lookups_ok 10000 x \<and> call_model m x = Inr ()) (fit_calls (trace g)) \<and>
     list_all (\<lambda>(v, m, x, r). x = xt \<and> embedding_dims (layers_of (arch m)) = [10000] \<and>
                 lookups_ok 10000 x \<and> call_model m x = Inr ()) (evaluate_calls (trace g))"
proof (rule notebook_run [of num f], goal_cases)
  case (1 g xa xt h1 m1 c1 h2 m2 c2 h3 m3 c3 h4 m4 c4)
  have tok: "list_all (list_all (\<lambda>w. 0 \<le> w \<and> w < 10000)) (loaded_train f @ loaded_test f)"
    using load_tokens [OF _ load_split, of f] by (simp add: VOCAB_SIZE_def)
  have la: "lookups_ok 10000 xa" and lt: "lookups_ok 10000 xt"
    using tok pad_keeps_tokens [OF _ 1(2), of 10000] pad_keeps_tokens [OF _ 1(3), of 10000]
    by (simp_all add: MAXLEN_def)
  then have rows: "list_all (list_all (\<lambda>w. 0 \<le> w \<and> w < 10000 \<and>
      embedding_lookup 10000 w = Inr (nat w))) (rows xa @ rows xt)"
    by (auto simp: lookups_ok_iff list_all_iff embedding_lookup_def)
  have pad: "list_all2 (\<lambda>s r. list_all (\<lambda>w. w = 0 \<or> w \<in> set s) r)
       (loaded_train f @ loaded_test f) (rows xa @ rows xt)"
    using padded_tokens [OF 1(2)] padded_tokens [OF 1(3)] by (simp add: list_all2_appendI)
  note d = embedding_dims_models
    embedding_dims_models(1) [folded fit_arch [OF 1(4)]]
    embedding_dims_models(2) [folded fit_arch [OF 1(5)]]
    embedding_dims_models(3) [folded fit_arch [OF 1(6)]]
    embedding_dims_models(4) [folded fit_arch [OF 1(7)]]
  note c = fit_call_model [OF 1(4)] fit_call_model [OF 1(5)] fit_call_model [OF 1(6)]
    fit_call_model [OF 1(7)] evaluate_call_model [OF 1(8)] evaluate_call_model [OF 1(9)]
    evaluate_call_model [OF 1(10)] evaluate_call_model [OF 1(11)]
  have calls: "list_all (\<lambda>(v, m, x, r). x = xa \<and> embedding_dims (layers_of (arch m)) = [10000] \<and>
                 lookups_ok 10000 x \<and> call_model m x = Inr ()) (fit_calls (trace g))"
    "list_all (\<lambda>(v, m, x, r). x = xt \<and> embedding_dims (layers_of (arch m)) = [10000] \<and>
                 lookups_ok 10000 x \<and> call_model m x = Inr ()) (evaluate_calls (trace g))"
    by (simp_all add: 1(12) d c la lt)
  have ld: "filter (\<lambda>e. step_of e = Load) (trace g) = [Load_data 10000]"
    by (simp add: 1(12) VOCAB_SIZE_def)
  have v: "input_train g = Some xa" "input_test g = Some xt"
    by (simp_all add: 1(12))
  show ?case
    using 1(1) v ld tok pad rows calls by (intro exI conjI) assumption+
qed

theorem tokens_in_vocabulary_witness:
  "\<exists>g xa xt. notebook flat_numerics small_file = Inr g \<and>
     input_train g = Some xa \<and> input_test g = Some xt \<and>
     loaded_train small_file @ loaded_test small_file =
       [[1, 14, 2, 8], 1 # replicate 600 10, [1, 11, 9999, 2]] \<and>
     list_all (list_all (\<lambda>w. 0 \<le> w \<and> w < 10000 \<and> embedding_lookup 10000 w = Inr (nat w)))
       (rows xa @ rows xt) \<and>
     list_all (\<lambda>(v, m, x, r). x = xa \<and> embedding_dims (layers_of (arch m)) = [10000] \<and>
                 lookups_ok 10000 x \<and> call_model m x = Inr ()) (fit_calls (trace g)) \<and>
     list_all (\<lambda>(v, m, x, r). x = xt \<and> embedding_dims (layers_of (arch m)) = [10000] \<and>
                 lookups_ok 10000 x \<and> call_model m x = Inr ()) (evaluate_calls (trace g))"
proof -
  have "loaded_train small_file @ loaded_test small_file =
       [[1, 14, 2, 8], 1 # replicate 600 10, [1, 11, 9999, 2]]"
    by (simp add: loaded_train_def loaded_test_def load_data_def small_file_def Let_def
          VOCAB_SIZE_def start_char_def index_from_def skip_top_def oov_char_def)
  then show ?thesis
    using tokens_in_vocabulary [of flat_numerics small_file]
    by (elim exE conjE, intro exI conjI) assumption+
qed

lemma embedding_lookup_examples:
  "embedding_lookup 10000 0 = Inr 0"
  "embedding_lookup 10000 9999 = Inr 9999"
  "embedding_lookup 10000 10000 = Inl InvalidArgumentError"
  "embedding_lookup 10000 (- 1) = Inl InvalidArgumentError"
  by (simp_all add: embedding_lookup_def)


section \<open>Early stopping\<close>

lemma lowest_Suc_stale:
  "stale b0 vl e \<Longrightarrow> lowest b0 vl (Suc e) = lowest b0 vl e"
  by (auto simp: stale_def split: option.splits)

lemma lowest_Suc_improved:
  "\<not> stale b0 vl e \<Longrightarrow> lowest b0 vl (Suc e) = Some (vl e)"
  by (auto simp: stale_def split: option.splits)

lemma is_improvement_stale:
  "best cb = lowest b0 vl e \<Longrightarrow> min_delta cb = 0 \<Longrightarrow>
   is_improvement (cb\<lparr>wait := w\<rparr>) (vl e) = (\<not> stale b0 vl e)"
  by (simp add: is_improvement_def stale_def split: option.splits)

text \<open>
  The loop under one callback of patience 2: entered at epoch \<open>e\<close> with the
  callback holding the lowest loss so far and counting the stale epoch before, if
  there was one, it runs to the first second stale epoch in a row, or to the end.
\<close>

lemma fit_loop_patient:
  assumes "\<And>k. map_of (el k) (monitor cb) = Some (vl k)"
    and "patience cb = 2" and "min_delta cb = 0"
    and "best cb = lowest b0 vl e"
    and "wait cb = (if 1 \<le> e \<and> stale b0 vl (e - 1) then 1 else 0)"
    and "length h = e"
    and "\<And>k. 1 \<le> k \<Longrightarrow> k < e \<Longrightarrow> \<not> (stale b0 vl (k - 1) \<and> stale b0 vl k)"
    and "0 < left \<or> 1 \<le> e"
  shows "patient_stop b0 vl (e + left) (length (fst (fit_loop el left e [cb] h)))"
  using assms
proof (induction left arbitrary: e cb h)
  case 0
  then show ?case
    by (auto simp: patient_stop_def list_all_iff)
next
  case (Suc left)
  let ?w = "cb\<lparr>wait := wait cb + 1\<rparr>"
  show ?case
  proof (cases "stale b0 vl e")
    case False
    let ?cb = "?w\<lparr>best := Some (vl e), wait := 0\<rparr>"
    have step: "fit_loop el (Suc left) e [cb] h = fit_loop el left (Suc e) [?cb] (h @ [el e])"
      using False Suc.prems(1,3,4)
      by (simp add: epoch_end_all_def on_epoch_end_def Let_def is_improvement_stale)
    have "patient_stop b0 vl (Suc e + left)
            (length (fst (fit_loop el left (Suc e) [?cb] (h @ [el e]))))"
    proof (rule Suc.IH)
      show "map_of (el k) (monitor ?cb) = Some (vl k)" for k
        using Suc.prems(1) by simp
      show "best ?cb = lowest b0 vl (Suc e)"
        using lowest_Suc_improved [OF False] by (simp del: lowest.simps)
      show "wait ?cb = (if 1 \<le> Suc e \<and> stale b0 vl (Suc e - 1) then 1 else 0)"
        using False by simp
      show "\<not> (stale b0 vl (k - 1) \<and> stale b0 vl k)" if "1 \<le> k" "k < Suc e" for k
        using that False Suc.prems(7) [of k] by (cases "k = e") auto
    qed (use Suc.prems in simp_all)
    then show ?thesis
      by (simp only: step add_Suc_shift add_Suc_right add_Suc)
  next
    case True
    show ?thesis
    proof (cases "1 \<le> e \<and> stale b0 vl (e - 1)")
      case True
      have step: "fit_loop el (Suc left) e [cb] h = (h @ [el e], [?w\<lparr>stopped_epoch := e\<rparr>])"
        using \<open>stale b0 vl e\<close> True Suc.prems(1-5)
        by (simp add: epoch_end_all_def on_epoch_end_def Let_def is_improvement_stale)
      show ?thesis
        unfolding step
        using True \<open>stale b0 vl e\<close> Suc.prems(6,7)
        by (auto simp: patient_stop_def list_all_iff)
    next
      case False
      have step: "fit_loop el (Suc left) e [cb] h = fit_loop el left (Suc e) [?w] (h @ [el e])"
        using \<open>stale b0 vl e\<close> False Suc.prems(1-5)
        by (auto simp add: epoch_end_all_def on_epoch_end_def Let_def is_improvement_stale)
      have "patient_stop b0 vl (Suc e + left)
              (length (fst (fit_loop el left (Suc e) [?w] (h @ [el e]))))"
      proof (rule Suc.IH)
        show "map_of (el k) (monitor ?w) = Some (vl k)" for k
          using Suc.prems(1) by simp
        show "best ?w = lowest b0 vl (Suc e)"
          using lowest_Suc_stale [OF \<open>stale b0 vl e\<close>] Suc.prems(4) by (simp del: lowest.simps)
        show "wait ?w = (if 1 \<le> Suc e \<and> stale b0 vl (Suc e - 1) then 1 else 0)"
          using \<open>stale b0 vl e\<close> False Suc.prems(5) by simp
        show "\<not> (stale b0 vl (k - 1) \<and> stale b0 vl k)" if "1 \<le> k" "k < Suc e" for k
          using that False Suc.prems(7) [of k] by (cases "k = e") auto
      qed (use Suc.prems in simp_all)
      then show ?thesis
        by (simp only: step add_Suc_shift add_Suc_right add_Suc)
    qed
  qed
qed


lemma lowest_from_None:
  "lowest None vl e = Some b \<Longrightarrow> \<exists>b'. lowest b0 vl e = Some b' \<and> b' \<le> b"
proof (induction e arbitrary: b)
  case 0
  then show ?case by simp
next
  case (Suc e)
  show ?case
  proof (cases "lowest None vl e")
    case None
    with Suc.prems show ?thesis
      by (auto split: option.splits)
  next
    case (Some c)
    with Suc.IH [of c] Suc.prems show ?thesis
      by (auto split: option.splits)
  qed
qed

lemma stale_from_None: "stale None vl e \<Longrightarrow> stale b0 vl e"
proof -
  assume s: "stale None vl e"
  then obtain b where b: "lowest None vl e = Some b" and "\<not> vl e < b"
    by (auto simp: stale_def split: option.splits)
  with lowest_from_None [OF b, of b0] show ?thesis
    by (auto simp: stale_def)
qed

lemma patient_stop_when_stale:
  assumes "patient_stop b0 vl epochs n"
  shows "stops_when_stale vl epochs n"
proof -
  have "n \<le> Suc e" if "1 \<le> e" and "stale None vl (e - 1)" and "stale None vl e" for e
  proof (rule ccontr)
    assume "\<not> n \<le> Suc e"
    then have "e \<in> set [1..<n - 1]"
      using that(1) by simp
    then have "\<not> (stale b0 vl (e - 1) \<and> stale b0 vl e)"
      using assms by (simp add: patient_stop_def list_all_iff)
    then show False
      using that(2,3) stale_from_None by blast
  qed
  then show ?thesis
    by (simp add: stops_when_stale_def list_all_iff)
qed

lemma fit_patient:
  assumes "fit num m x y 10 b 0.2 [cb] = Inr (h, m1, cbs1)"
    and "compiled m = Some adam_cfg" and "config cb = (''val_loss'', 2, 0)"
  shows "patient_stop (best cb) (val_loss num m x y b 0.2) 10 (length h)"
proof -
  let ?el = "\<lambda>epoch. map (\<lambda>k. (k, train_logs num m x y b 0.2 epoch k))
                (log_keys adam_cfg 0.2)"
  have h: "h = fst (fit_loop ?el 10 0 [on_train_begin cb] [])"
    using assms(1,2)
    by (auto simp: fit_def run_epochs_def Let_def split_def split: sum.splits)
  have "patient_stop (best cb) (val_loss num m x y b 0.2) (0 + 10)
          (length (fst (fit_loop ?el 10 0 [on_train_begin cb] [])))"
  proof (rule fit_loop_patient)
    show "map_of (?el k) (monitor (on_train_begin cb)) = Some (val_loss num m x y b 0.2 k)" for k
      using assms(3)
      by (simp add: config_def on_train_begin_def log_keys_def adam_cfg_def val_loss_def)
  qed (use assms(3) in \<open>simp_all add: config_def on_train_begin_def\<close>)
  then show ?thesis
    by (simp add: h)
qed

lemma fit_early_stopped:
  assumes "fit num m x y 10 b 0.2 [cb] = Inr (h, m1, cbs1)"
    and "compiled m = Some adam_cfg" and "config cb = (''val_loss'', 2, 0)"
  shows "early_stopped num (v, m, x, y, 10, b, 0.2, [cb])"
    and "1 \<le> length h \<and> length h \<le> 10"
  using fit_patient [OF assms] patient_stop_when_stale [OF fit_patient [OF assms]] assms(1)
  by (simp_all add: early_stopped_def patient_stop_def)

text \<open>
  Every \<^verbatim>\<open>fit\<close> of the notebook is called with \<^verbatim>\<open>epochs=10\<close> and
  \<^verbatim>\<open>validation_split=0.2\<close> and runs at least 1 and at most 10 epochs. It ends
  before the tenth epoch only at an epoch that is the second in a row whose validation
  loss is not below the lowest validation loss the callback holds, and it does not go
  on after such an epoch. What the callback holds when a \<^verbatim>\<open>fit\<close> begins is what
  the \<^verbatim>\<open>fit\<close> before left in it. On the losses of one \<^verbatim>\<open>fit\<close> alone only
  one direction holds: two epochs in a row that do not improve on the lowest loss of
  the earlier epochs of this \<^verbatim>\<open>fit\<close> end it.
\<close>

lemma early_stopping_within_ten_epochs:
  "\<exists>g h1 h2 h3 h4. notebook num f = Inr g \<and>
     [history g, history_LSTM g, history_GRU g, history_attention g] =
       [Some h1, Some h2, Some h3, Some h4] \<and>
     map (history_of num) (fit_calls (trace g)) = [Some h1, Some h2, Some h3, Some h4] \<and>
     list_all (\<lambda>h. 1 \<le> length h \<and> length h \<le> 10) [h1, h2, h3, h4] \<and>
     list_all (early_stopped num) (fit_calls (trace g))"
proof (rule notebook_run [of num f], goal_cases)
  case (1 g xa xt h1 m1 c1 h2 m2 c2 h3 m3 c3 h4 m4 c4)
  have c0: "config (EarlyStopping ''val_loss'' 2) = (''val_loss'', 2, 0)"
    by (simp add: config_def EarlyStopping_def)
  have c: "config c1 = (''val_loss'', 2, 0)" "config c2 = (''val_loss'', 2, 0)"
    "config c3 = (''val_loss'', 2, 0)"
    using fit_config [OF 1(4)] fit_config [OF 1(5)] fit_config [OF 1(6)] c0
    by simp_all
  note e1 = fit_early_stopped [OF 1(4) build_model_compiled c0]
  note e2 = fit_early_stopped [OF 1(5) build_model_compiled c(1)]
  note e3 = fit_early_stopped [OF 1(6) build_model_compiled c(2)]
  note e4 = fit_early_stopped [OF 1(7) build_model2_compiled c(3)]
  have "map (history_of num) (fit_calls (trace g)) = [Some h1, Some h2, Some h3, Some h4]"
    using 1(4-7) by (simp add: 1(12) history_of_def)
  moreover have "list_all (early_stopped num) (fit_calls (trace g))"
    using e1(1) e2(1) e3(1) e4(1) by (simp add: 1(12) BATCH_SIZE_def)
  moreover have "[history g, history_LSTM g, history_GRU g, history_attention g] =
       [Some h1, Some h2, Some h3, Some h4]"
    by (simp add: 1(12))
  moreover have "list_all (\<lambda>h. 1 \<le> length h \<and> length h \<le> 10) [h1, h2, h3, h4]"
    using e1(2) e2(2) e3(2) e4(2) by simp
  ultimately show ?case
    using 1(1) by (intro exI conjI) assumption+
qed


section \<open>The epochs in the notebook's output\<close>

lemma recorded_rows:
  "recorded_row (build_model SimpleRNN) = [0.4371, 0.4366, 0.4364, 0.4602, 0.5164]"
  "recorded_row (build_model LSTM) = [0.3558, 0.3172, 0.3055, 0.3379, 0.3490]"
  "recorded_row (build_model GRU) = [0.3581, 0.3231]"
  "recorded_row (build_model2 LSTM 32) = [0.3283, 0.2830, 0.3176, 0.3553]"
  by (simp_all add: recorded_row_def build_model_arch build_model2_arch layers_of_def
        recorded_val_loss_def)

lemma fit_loop_numeral:
  "fit_loop el (numeral k) epoch cbs h =
     (let lg = el epoch;
          (cbs, stop_training) = epoch_end_all cbs epoch lg;
          h = h @ [lg]
      in if stop_training then (h, cbs)
         else fit_loop el (pred_numeral k) (Suc epoch) cbs h)"
  by (simp add: numeral_eq_Suc)

lemmas replay_defs =
  run_epochs_def recorded_numerics_def recorded_rows log_keys_def adam_cfg_def
  EarlyStopping_def on_train_begin_def epoch_end_all_def on_epoch_end_def
  is_improvement_def Let_def fit_loop_numeral

text \<open>
  The four \<^verbatim>\<open>fit\<close> calls on the validation losses of the output cells, each begun
  with the callback as the one before left it: 5, 5, 2 and 4 epochs, as the output
  cells show.
\<close>

lemma replay_simple_rnn:
  "run_epochs recorded_numerics adam_cfg (build_model SimpleRNN) x y 10 b 0.2
      [EarlyStopping ''val_loss'' 2] = (h, cbs) \<Longrightarrow>
   length h = 5 \<and>
   cbs = [\<lparr>monitor = ''val_loss'', patience = 2, min_delta = 0, best = Some 0.4364,
           wait = 2, stopped_epoch = 4\<rparr>]"
  by (auto simp add: replay_defs)

lemma replay_lstm:
  "run_epochs recorded_numerics adam_cfg (build_model LSTM) x y 10 b 0.2
      [\<lparr>monitor = ''val_loss'', patience = 2, min_delta = 0, best = Some 0.4364,
        wait = 2, stopped_epoch = 4\<rparr>] = (h, cbs) \<Longrightarrow>
   length h = 5 \<and>
   cbs = [\<lparr>monitor = ''val_loss'', patience = 2, min_delta = 0, best = Some 0.3055,
           wait = 2, stopped_epoch = 4\<rparr>]"
  by (auto simp add: replay_defs)

lemma replay_gru:
  "run_epochs recorded_numerics adam_cfg (build_model GRU) x y 10 b 0.2
      [\<lparr>monitor = ''val_loss'', patience = 2, min_delta = 0, best = Some 0.3055,
        wait = 2, stopped_epoch = 4\<rparr>] = (h, cbs) \<Longrightarrow>
   length h = 2 \<and>
   cbs = [\<lparr>monitor = ''val_loss'', patience = 2, min_delta = 0, best = Some 0.3055,
           wait = 2, stopped_epoch = 1\<rparr>]"
  by (auto simp add: replay_defs)

lemma replay_attention:
  "run_epochs recorded_numerics adam_cfg (build_model2 LSTM 32) x y 10 b 0.2
      [\<lparr>monitor = ''val_loss'', patience = 2, min_delta = 0, best = Some 0.3055,
        wait = 2, stopped_epoch = 1\<rparr>] = (h, cbs) \<Longrightarrow>
   length h = 4 \<and>
   cbs = [\<lparr>monitor = ''val_loss'', patience = 2, min_delta = 0, best = Some 0.2830,
           wait = 2, stopped_epoch = 3\<rparr>]"
  by (auto simp add: replay_defs)

text \<open>
  Begun with a callback that holds no loss yet, as under a release that resets
  \<^verbatim>\<open>best\<close> when training begins, the \<^verbatim>\<open>fit\<close> of the GRU model does not
  end after its second epoch, whose loss is below the first: the two epochs of the
  output cell are those of a callback that still holds the lowest loss of the
  \<^verbatim>\<open>fit\<close> before.
\<close>

lemma replay_gru_fresh:
  "2 < length (fst (run_epochs recorded_numerics adam_cfg (build_model GRU) x y 10 b 0.2
      [EarlyStopping ''val_loss'' 2]))"
  by (simp add: replay_defs)

lemma fit_as_run_epochs:
  assumes "fit num m x y e b v cbs = Inr (h, m1, cbs1)" and "compiled m = Some cfg"
  shows "run_epochs num cfg m x y e b v cbs = (h, cbs1)"
  using assms by (auto simp: fit_def Let_def split_def split: sum.splits)

lemma replay_notebook:
  assumes "notebook recorded_numerics f = Inr g"
  shows "map (map_option length)
           [history g, history_LSTM g, history_GRU g, history_attention g] =
         [Some 5, Some 5, Some 2, Some 4]"
proof (rule notebook_run [of recorded_numerics f], goal_cases)
  case (1 g' xa xt h1 m1 c1 h2 m2 c2 h3 m3 c3 h4 m4 c4)
  have g: "g = g'"
    using assms 1(1) by simp
  from replay_simple_rnn [OF fit_as_run_epochs [OF 1(4) build_model_compiled]]
  have l1: "length h1 = 5"
    and c1: "c1 = \<lparr>monitor = ''val_loss'', patience = 2, min_delta = 0, best = Some 0.4364,
                   wait = 2, stopped_epoch = 4\<rparr>"
    by simp_all
  from replay_lstm [OF fit_as_run_epochs [OF 1(5) [unfolded c1] build_model_compiled]]
  have l2: "length h2 = 5"
    and c2: "c2 = \<lparr>monitor = ''val_loss'', patience = 2, min_delta = 0, best = Some 0.3055,
                   wait = 2, stopped_epoch = 4\<rparr>"
    by simp_all
  from replay_gru [OF fit_as_run_epochs [OF 1(6) [unfolded c2] build_model_compiled]]
  have l3: "length h3 = 2"
    and c3: "c3 = \<lparr>monitor = ''val_loss'', patience = 2, min_delta = 0, best = Some 0.3055,
                   wait = 2, stopped_epoch = 1\<rparr>"
    by simp_all
  from replay_attention [OF fit_as_run_epochs [OF 1(7) [unfolded c3] build_model2_compiled]]
  have l4: "length h4 = 4"
    by simp
  show ?case
    by (simp add: g 1(12) l1 l2 l3 l4)
qed

lemma early_stopping_replayed:
  "\<exists>g h1 h2 h3 h4. notebook recorded_numerics small_file = Inr g \<and>
     [history g, history_LSTM g, history_GRU g, history_attention g] =
       [Some h1, Some h2, Some h3, Some h4] \<and>
     map length [h1, h2, h3, h4] = [5, 5, 2, 4] \<and>
     list_all (early_stopped recorded_numerics) (fit_calls (trace g))"
proof -
  obtain g h1 h2 h3 h4 where g: "notebook recorded_numerics small_file = Inr g"
    and h: "[history g, history_LSTM g, history_GRU g, history_attention g] =
       [Some h1, Some h2, Some h3, Some h4]"
    and e: "list_all (early_stopped recorded_numerics) (fit_calls (trace g))"
    using early_stopping_within_ten_epochs [of recorded_numerics small_file] by blast
  have l: "map length [h1, h2, h3, h4] = [5, 5, 2, 4]"
    using replay_notebook [OF g] h by simp
  show ?thesis
    using g h l e by (intro exI conjI) assumption+
qed

section \<open>The fit of the GRU model in the stored run\<close>

lemma recorded_gru_losses:
  "val_loss recorded_numerics (build_model GRU) x y b v 0 = 0.3581"
  "val_loss recorded_numerics (build_model GRU) x y b v (Suc 0) = 0.3231"
  by (simp_all add: val_loss_def recorded_numerics_def recorded_rows)

lemma recorded_gru_not_stale:
  "\<not> stale None (val_loss recorded_numerics (build_model GRU) x y b v) 0"
  "\<not> stale None (val_loss recorded_numerics (build_model GRU) x y b v) (Suc 0)"
  by (simp_all add: stale_def recorded_gru_losses)

text \<open>
  Claim C8. The claim is that each model's training stops before the tenth epoch once
  its validation loss has failed to improve for 2 epochs in a row. The run stored in
  the notebook's output cells does otherwise. The third \<^verbatim>\<open>fit\<close>, of the GRU
  model, is called with \<^verbatim>\<open>epochs=10\<close> and with the callback of the two
  \<^verbatim>\<open>fit\<close> calls before it, which still holds 0.3055, the lowest validation loss
  of the LSTM model. Its validation losses are 0.3581 and then 0.3231: neither epoch is
  stale on the losses of this \<^verbatim>\<open>fit\<close>, and yet the \<^verbatim>\<open>fit\<close> ends after these
  2 of 10 epochs. So the run does not stop as the claim reads on the model's own
  losses; it stops as a patience of two measured against the loss the callback holds.
\<close>

theorem gru_fit_ends_on_falling_loss:
  "\<exists>g x y cb h. notebook recorded_numerics f = Inr g \<and>
     fit_calls (trace g) ! 2 =
       (''gru_model'', build_model GRU, x, y, 10, BATCH_SIZE, 0.2, [cb]) \<and>
     best cb = Some 0.3055 \<and>
     history_of recorded_numerics (fit_calls (trace g) ! 2) = Some h \<and>
     history_GRU g = Some h \<and>
     length h = 2 \<and>
     map (val_loss recorded_numerics (build_model GRU) x y BATCH_SIZE 0.2) [0, 1] =
       [0.3581, 0.3231] \<and>
     \<not> stale None (val_loss recorded_numerics (build_model GRU) x y BATCH_SIZE 0.2) 0 \<and>
     \<not> stale None (val_loss recorded_numerics (build_model GRU) x y BATCH_SIZE 0.2) 1 \<and>
     \<not> patient_stop None (val_loss recorded_numerics (build_model GRU) x y BATCH_SIZE 0.2)
         10 (length h) \<and>
     patient_stop (best cb) (val_loss recorded_numerics (build_model GRU) x y BATCH_SIZE 0.2)
       10 (length h)"
proof (rule notebook_run [of recorded_numerics f], goal_cases)
  case (1 g xa xt h1 m1 c1 h2 m2 c2 h3 m3 c3 h4 m4 c4)
  let ?vl = "val_loss recorded_numerics (build_model GRU) xa (file_y_train f) BATCH_SIZE 0.2"
  from replay_simple_rnn [OF fit_as_run_epochs [OF 1(4) build_model_compiled]]
  have c1: "c1 = \<lparr>monitor = ''val_loss'', patience = 2, min_delta = 0, best = Some 0.4364,
                   wait = 2, stopped_epoch = 4\<rparr>"
    by simp
  from replay_lstm [OF fit_as_run_epochs [OF 1(5) [unfolded c1] build_model_compiled]]
  have c2: "c2 = \<lparr>monitor = ''val_loss'', patience = 2, min_delta = 0, best = Some 0.3055,
                   wait = 2, stopped_epoch = 4\<rparr>"
    by simp
  from replay_gru [OF fit_as_run_epochs [OF 1(6) [unfolded c2] build_model_compiled]]
  have l3: "length h3 = 2"
    by simp
  have call: "fit_calls (trace g) ! 2 =
       (''gru_model'', build_model GRU, xa, file_y_train f, 10, BATCH_SIZE, 0.2, [c2])"
    by (simp add: 1(12))
  have best: "best c2 = Some 0.3055"
    by (simp add: c2)
  have hist: "history_of recorded_numerics (fit_calls (trace g) ! 2) = Some h3"
    using 1(6) by (simp add: call history_of_def)
  have var: "history_GRU g = Some h3"
    by (simp add: 1(12))
  have losses: "map ?vl [0, 1] = [0.3581, 0.3231]"
    using recorded_gru_losses [of xa "file_y_train f" BATCH_SIZE "0.2"] by simp
  have fresh: "\<not> stale None ?vl 0" "\<not> stale None ?vl 1"
    using recorded_gru_not_stale [of xa "file_y_train f" BATCH_SIZE "0.2"] by simp_all
  have no: "\<not> patient_stop None ?vl 10 (length h3)"
    using fresh(1) by (simp add: patient_stop_def l3)
  have yes: "patient_stop (best c2) ?vl 10 (length h3)"
    by (rule fit_patient [OF 1(6) build_model_compiled]) (simp add: c2 config_def)
  show ?case
    using 1(1) call best hist var l3 losses fresh no yes
    by (intro exI conjI) assumption+
qed

theorem gru_fit_ends_on_falling_loss_witness:
  "\<exists>g x y cb h. notebook recorded_numerics sized_file = Inr g \<and>
     fit_calls (trace g) ! 2 =
       (''gru_model'', build_model GRU, x, y, 10, BATCH_SIZE, 0.2, [cb]) \<and>
     best cb = Some 0.3055 \<and>
     history_GRU g = Some h \<and>
     length h = 2 \<and>
     map (val_loss recorded_numerics (build_model GRU) x y BATCH_SIZE 0.2) [0, 1] =
       [0.3581, 0.3231]"
  using gru_fit_ends_on_falling_loss [of sized_file]
  by (elim exE conjE, intro exI conjI) assumption+

end
